theory Spec2Isabelle
  imports Main "HOL-Library.Monad_Syntax"
begin

section \<open>Data model\<close>

text \<open>
  The pydantic models (\<^verbatim>\<open>limbo.models\<close>: Testcase, Limbo, PeerName, Feature) and the asset
  types (\<^verbatim>\<open>limbo.assets\<close>: Certificate, ext) are imported by the sources but are not among
  them. The types below are modelled from the data model of the specification (section 3),
  with the attributes the embedded testcase bodies pass.
\<close>

type_synonym name = "(string \<times> string) list"
  \<comment> \<open>an X.509 distinguished name: attribute type and value, in order;
      \<^verbatim>\<open>x509.Name([])\<close> is the empty list\<close>

type_synonym time = string
  \<comment> \<open>an ISO-8601 instant, as the sources write it\<close>

datatype key = Key nat
  \<comment> \<open>a key pair, identified by the number of its generation\<close>

datatype general_name =
    DNSName string
  | IPAddress string
  | RFC822Name string
  | DirectoryName name
  | OtherName string string

datatype 'a ext = Ext (ext_value: 'a) (critical: bool)
  \<comment> \<open>\<^verbatim>\<open>ext(value, critical=...)\<close>: an extension value with its explicit criticality flag\<close>

record name_constraints =
  permitted_subtrees :: "general_name list option"
  excluded_subtrees :: "general_name list option"

record certificate =
  cert_subject :: name
  cert_issuer :: name
  cert_key :: key
  cert_signing_key :: key
  cert_not_before :: time
  cert_not_after :: time
  cert_ca :: bool
  cert_pathlen :: "nat option"
  cert_aki :: "key ext option"
  cert_ski :: "key ext option"
  cert_san :: "general_name list ext option"
  cert_name_constraints :: "name_constraints ext option"

datatype peer_kind = DNS | IP | RFC822 | OTHERNAME | DIRECTORYNAME

record peer_name =
  kind :: peer_kind
  pn_value :: string

datatype feature =
    Has_cert_policies
  | No_cert_policies
  | Pedantic_serial_number
  | Name_constraint_dn
  | Other_feature string

datatype validation_kind = SERVER | CLIENT

datatype expected_result = SUCCESS | FAILURE

datatype known_eku = Server_auth | Client_auth | Any_eku | Other_eku string

record testcase =
  tc_id :: string
  tc_description :: string
  tc_conflicts_with :: "string list"
  tc_features :: "feature list"
  tc_validation_kind :: validation_kind
  tc_trusted_certs :: "certificate list"
  tc_untrusted_intermediates :: "certificate list"
  tc_peer_certificate :: certificate
  tc_validation_time :: "time option"
  tc_extended_key_usage :: "known_eku list option"
  tc_expected_result :: expected_result
  tc_expected_peer_name :: "peer_name option"
  tc_expected_peer_names :: "peer_name list option"
  tc_max_chain_depth :: "nat option"

record limbo =
  version :: int
  testcases :: "testcase list"

section \<open>Errors\<close>

datatype error =
    AuthoringError string
  | ValidationError
  | AdapterError
  | FileNotFoundError
  | FileExistsError
  | IsADirectoryError
  | NotADirectoryError
  | UnicodeDecodeError
  | OSError
  | CalledProcessError int string string
      \<comment> \<open>return code, captured standard output, captured standard error\<close>

section \<open>Glob matching: \<^verbatim>\<open>fnmatch.fnmatch\<close>\<close>

text \<open>
  \<^verbatim>\<open>fnmatch\<close> is Python's library function, with \<^verbatim>\<open>os.path.normcase\<close> the identity (POSIX). The
  library translates the pattern to a regular expression: \<^verbatim>\<open>*\<close> is any string, \<^verbatim>\<open>?\<close> any one
  character, \<^verbatim>\<open>[seq]\<close> and \<^verbatim>\<open>[!seq]\<close> a character set, an unclosed \<^verbatim>\<open>[\<close> the character itself,
  and the whole name must match. The model keeps the translation's steps and matches the
  translated items directly. Characters are compared by their code.
\<close>

datatype glob_item =
    STAR
  | ANY
  | NEVER
  | LITERAL char
  | CHARSET bool "string list"
      \<comment> \<open>negated or not; the chunks of the set, a range running from the last character of
          a chunk to the first character of the next\<close>

definition bracket_end :: "string \<Rightarrow> nat option" where
  \<comment> \<open>the scan for the closing bracket: the index \<open>j\<close> of the library, counted from the
      character after the opening bracket; \<open>None\<close> when \<open>j >= n\<close>\<close>
  "bracket_end rest =
     (let j = (if 0 < length rest \<and> rest ! 0 = CHR ''!'' then 1 else 0);
          j = (if j < length rest \<and> rest ! j = CHR '']'' then j + 1 else j);
          j = j + length (takeWhile (\<lambda>c. c \<noteq> CHR '']'') (drop j rest))
      in if j \<ge> length rest then None else Some j)"

fun split_chunks :: "nat \<Rightarrow> string \<Rightarrow> string \<Rightarrow> string list" where
  \<comment> \<open>the \<^verbatim>\<open>pat.find('-', k, j)\<close> loop: \<open>skip\<close> characters are passed over before a hyphen
      may end the chunk \<open>cur\<close>; after a hyphen the search resumes two characters on\<close>
  "split_chunks skip cur [] = [cur]"
| "split_chunks skip cur (c # cs) =
     (if skip = 0 \<and> c = CHR ''-'' then cur # split_chunks 2 [] cs
      else split_chunks (skip - 1) (cur @ [c]) cs)"

definition close_chunks :: "string list \<Rightarrow> string list" where
  \<comment> \<open>\<^verbatim>\<open>if chunk: chunks.append(chunk) else: chunks[-1] += '-'\<close>\<close>
  "close_chunks chunks =
     (if chunks \<noteq> [] \<and> last chunks = [] \<and> butlast chunks \<noteq> []
      then butlast (butlast chunks) @ [last (butlast chunks) @ ''-'']
      else chunks)"

fun remove_empty_ranges :: "string list \<Rightarrow> string list" where
  \<comment> \<open>\<^verbatim>\<open>for k in range(len(chunks)-1, 0, -1)\<close>: from the last pair of chunks to the first\<close>
  "remove_empty_ranges [] = []"
| "remove_empty_ranges [c] = [c]"
| "remove_empty_ranges (c # cs) =
     (case remove_empty_ranges cs of
        [] \<Rightarrow> [c]
      | d # ds \<Rightarrow>
          if c \<noteq> [] \<and> d \<noteq> [] \<and> (of_char (last c) :: nat) > of_char (hd d)
          then (butlast c @ tl d) # ds
          else c # d # ds)"

definition charset_item :: "string \<Rightarrow> glob_item" where
  "charset_item stuff =
     (let chunks =
            (if CHR ''-'' \<notin> set stuff then [stuff]
             else remove_empty_ranges
                    (close_chunks
                       (split_chunks (if hd stuff = CHR ''!'' then 2 else 1) [] stuff)))
      in if chunks = [] \<or> chunks = [[]] then NEVER
         else if chunks = [''!''] then ANY
         else (case chunks of
                 (CHR ''!'' # s) # rest \<Rightarrow> CHARSET True (s # rest)
               | _ \<Rightarrow> CHARSET False chunks))"

function translate :: "string \<Rightarrow> glob_item list" where
  "translate [] = []"
| "translate (c # rest) =
     (if c = CHR ''*'' then
        (case translate rest of
           STAR # res \<Rightarrow> STAR # res
         | res \<Rightarrow> STAR # res)
      else if c = CHR ''?'' then ANY # translate rest
      else if c = CHR ''['' then
        (case bracket_end rest of
           None \<Rightarrow> LITERAL CHR ''['' # translate rest
         | Some j \<Rightarrow> charset_item (take j rest) # translate (drop (j + 1) rest))
      else LITERAL c # translate rest)"
  by pat_completeness auto
termination
  by (relation "measure length") auto

fun in_charset :: "char \<Rightarrow> string list \<Rightarrow> bool" where
  "in_charset c [] = False"
| "in_charset c [s] = (c \<in> set s)"
| "in_charset c (s # t # rest) =
     (if s = [] \<or> t = [] then c = CHR ''-'' \<or> c \<in> set s \<or> in_charset c (t # rest)
      else c \<in> set (butlast s)
           \<or> ((of_char (last s) :: nat) \<le> of_char c \<and> (of_char c :: nat) \<le> of_char (hd t))
           \<or> in_charset c (tl t # rest))"

fun item_matches :: "glob_item \<Rightarrow> char \<Rightarrow> bool" where
  "item_matches STAR c = True"
| "item_matches ANY c = True"
| "item_matches NEVER c = False"
| "item_matches (LITERAL l) c = (l = c)"
| "item_matches (CHARSET negated chunks) c = (in_charset c chunks \<noteq> negated)"

fun glob_match :: "glob_item list \<Rightarrow> string \<Rightarrow> bool" where
  "glob_match [] s = (s = [])"
| "glob_match (STAR # items) [] = glob_match items []"
| "glob_match (STAR # items) (c # cs) =
     (glob_match items (c # cs) \<or> glob_match (STAR # items) cs)"
| "glob_match (item # items) [] = False"
| "glob_match (item # items) (c # cs) = (item_matches item c \<and> glob_match items cs)"

definition fnmatch :: "string \<Rightarrow> string \<Rightarrow> bool" where
  "fnmatch name pat = glob_match (translate pat) name"

section \<open>The chain builder\<close>

text \<open>
  \<^verbatim>\<open>limbo.testcases._core\<close> (the class \<^verbatim>\<open>Builder\<close> and the decorator \<^verbatim>\<open>testcase\<close>) is imported
  by the testcase modules but is not among the sources. The builder below is modelled from
  section 4.2 of the specification: a linear state machine whose certificate constructions
  come first, then one validation-kind selector, then the configuration, then one terminal
  call, which finalizes and registers the Testcase. An illegal transition is a fatal
  authoring error: the operation returns \<open>None\<close>. The default values of omitted
  certificate parameters are not stated anywhere: they are the parameter \<open>cert_defaults\<close>.
\<close>

datatype phase = INIT | CONFIGURE | TERMINAL

datatype 'a arg = Default | Given 'a
  \<comment> \<open>a keyword argument: omitted, or passed (possibly as \<^verbatim>\<open>None\<close>)\<close>

definition from_arg :: "'a \<Rightarrow> 'a arg \<Rightarrow> 'a" where
  "from_arg d a = (case a of Default \<Rightarrow> d | Given x \<Rightarrow> x)"

record cert_args =
  arg_issuer :: "name arg"
  arg_subject :: "name arg"
  arg_key :: "key arg"
  arg_not_after :: "time arg"
  arg_pathlen :: "nat option arg"
  arg_aki :: "key ext option arg"
  arg_ski :: "key ext option arg"
  arg_san :: "general_name list ext option arg"
  arg_name_constraints :: "name_constraints ext option arg"

definition no_args :: cert_args where
  "no_args =
     \<lparr>arg_issuer = Default, arg_subject = Default, arg_key = Default, arg_not_after = Default,
      arg_pathlen = Default, arg_aki = Default, arg_ski = Default, arg_san = Default,
      arg_name_constraints = Default\<rparr>"

record cert_defaults =
  d_root_name :: name
  d_intermediate_subject :: name
  d_leaf_subject :: name
  d_not_before :: time
  d_not_after :: time
  d_leaf_san :: "general_name list ext option"

record builder =
  b_defaults :: cert_defaults
  b_id :: string
  b_description :: string
  b_phase :: phase
  b_keys :: nat
  b_conflicts_with :: "string list"
  b_features :: "feature list"
  b_validation_kind :: "validation_kind option"
  b_trusted_certs :: "certificate list"
  b_untrusted_intermediates :: "certificate list"
  b_peer_certificate :: "certificate option"
  b_validation_time :: "time option"
  b_extended_key_usage :: "known_eku list option"
  b_expected_peer_name :: "peer_name option"
  b_expected_peer_names :: "peer_name list option"
  b_registered :: "testcase list"

definition Builder :: "cert_defaults \<Rightarrow> string \<Rightarrow> string \<Rightarrow> builder" where
  \<comment> \<open>Modelled from the spec: the constructor of the missing \<^verbatim>\<open>Builder\<close>; a builder is scoped
      to one scenario and starts in the state INIT with nothing configured.\<close>
  "Builder d i description =
     \<lparr>b_defaults = d, b_id = i, b_description = description, b_phase = INIT, b_keys = 0,
      b_conflicts_with = [], b_features = [], b_validation_kind = None,
      b_trusted_certs = [], b_untrusted_intermediates = [], b_peer_certificate = None,
      b_validation_time = None, b_extended_key_usage = None,
      b_expected_peer_name = None, b_expected_peer_names = None, b_registered = []\<rparr>"

definition key_pair :: "key arg \<Rightarrow> builder \<Rightarrow> key \<times> builder" where
  \<comment> \<open>Modelled from the spec: the key pair is generated if omitted; the n-th generated key
      is \<open>Key n\<close>.\<close>
  "key_pair a b =
     (case a of
        Given k \<Rightarrow> (k, b)
      | Default \<Rightarrow> (Key (b_keys b), b\<lparr>b_keys := Suc (b_keys b)\<rparr>))"

definition root_ca :: "builder \<Rightarrow> cert_args \<Rightarrow> (certificate \<times> builder) option" where
  \<comment> \<open>Modelled from the spec: \<^verbatim>\<open>Builder.root_ca\<close>, missing with \<^verbatim>\<open>_core\<close>: a CA certificate
      signed with its own key; every parameter can be overridden.\<close>
  "root_ca b a =
     (if b_phase b \<noteq> INIT then None
      else
        (let (k, b) = key_pair (arg_key a) b;
             d = b_defaults b
         in Some
              (\<lparr>cert_subject = from_arg (d_root_name d) (arg_subject a),
                cert_issuer = from_arg (d_root_name d) (arg_issuer a),
                cert_key = k,
                cert_signing_key = k,
                cert_not_before = d_not_before d,
                cert_not_after = from_arg (d_not_after d) (arg_not_after a),
                cert_ca = True,
                cert_pathlen = from_arg None (arg_pathlen a),
                cert_aki = from_arg (Some (Ext k False)) (arg_aki a),
                cert_ski = from_arg (Some (Ext k False)) (arg_ski a),
                cert_san = from_arg None (arg_san a),
                cert_name_constraints = from_arg None (arg_name_constraints a)\<rparr>, b)))"

definition intermediate_ca ::
  "builder \<Rightarrow> certificate \<Rightarrow> cert_args \<Rightarrow> (certificate \<times> builder) option" where
  \<comment> \<open>Modelled from the spec: \<^verbatim>\<open>Builder.intermediate_ca\<close>, missing with \<^verbatim>\<open>_core\<close>: a CA
      certificate signed by \<open>parent\<close>, whose subject is the default issuer.\<close>
  "intermediate_ca b parent a =
     (if b_phase b \<noteq> INIT then None
      else
        (let (k, b) = key_pair (arg_key a) b;
             d = b_defaults b
         in Some
              (\<lparr>cert_subject = from_arg (d_intermediate_subject d) (arg_subject a),
                cert_issuer = from_arg (cert_subject parent) (arg_issuer a),
                cert_key = k,
                cert_signing_key = cert_key parent,
                cert_not_before = d_not_before d,
                cert_not_after = from_arg (d_not_after d) (arg_not_after a),
                cert_ca = True,
                cert_pathlen = from_arg None (arg_pathlen a),
                cert_aki = from_arg (Some (Ext (cert_key parent) False)) (arg_aki a),
                cert_ski = from_arg (Some (Ext k False)) (arg_ski a),
                cert_san = from_arg None (arg_san a),
                cert_name_constraints = from_arg None (arg_name_constraints a)\<rparr>, b)))"

definition leaf_cert ::
  "builder \<Rightarrow> certificate \<Rightarrow> cert_args \<Rightarrow> (certificate \<times> builder) option" where
  \<comment> \<open>Modelled from the spec: \<^verbatim>\<open>Builder.leaf_cert\<close>, missing with \<^verbatim>\<open>_core\<close>: an end-entity
      certificate signed by \<open>parent\<close>, whose subject is the default issuer.\<close>
  "leaf_cert b parent a =
     (if b_phase b \<noteq> INIT then None
      else
        (let (k, b) = key_pair (arg_key a) b;
             d = b_defaults b
         in Some
              (\<lparr>cert_subject = from_arg (d_leaf_subject d) (arg_subject a),
                cert_issuer = from_arg (cert_subject parent) (arg_issuer a),
                cert_key = k,
                cert_signing_key = cert_key parent,
                cert_not_before = d_not_before d,
                cert_not_after = from_arg (d_not_after d) (arg_not_after a),
                cert_ca = False,
                cert_pathlen = from_arg None (arg_pathlen a),
                cert_aki = from_arg (Some (Ext (cert_key parent) False)) (arg_aki a),
                cert_ski = from_arg (Some (Ext k False)) (arg_ski a),
                cert_san = from_arg (d_leaf_san d) (arg_san a),
                cert_name_constraints = from_arg None (arg_name_constraints a)\<rparr>, b)))"

definition select_kind :: "validation_kind \<Rightarrow> builder \<Rightarrow> builder option" where
  \<comment> \<open>Modelled from the spec: the transition to SELECT_KIND, exactly once.\<close>
  "select_kind k b =
     (if b_phase b \<noteq> INIT then None
      else Some (b\<lparr>b_phase := CONFIGURE, b_validation_kind := Some k\<rparr>))"

definition server_validation :: "builder \<Rightarrow> builder option" where
  "server_validation b = select_kind SERVER b"

definition client_validation :: "builder \<Rightarrow> builder option" where
  "client_validation b = select_kind CLIENT b"

definition configure :: "(builder \<Rightarrow> builder) \<Rightarrow> builder \<Rightarrow> builder option" where
  \<comment> \<open>Modelled from the spec: a CONFIGURE operation is legal after the kind selector and
      before the terminal call only.\<close>
  "configure f b = (if b_phase b \<noteq> CONFIGURE then None else Some (f b))"

definition trusted_certs :: "builder \<Rightarrow> certificate list \<Rightarrow> builder option" where
  \<comment> \<open>Modelled from the spec: the trust-anchor accumulator.\<close>
  "trusted_certs b certs = configure (\<lambda>b. b\<lparr>b_trusted_certs := b_trusted_certs b @ certs\<rparr>) b"

definition untrusted_intermediates :: "builder \<Rightarrow> certificate list \<Rightarrow> builder option" where
  "untrusted_intermediates b certs =
     configure (\<lambda>b. b\<lparr>b_untrusted_intermediates := b_untrusted_intermediates b @ certs\<rparr>) b"

definition peer_certificate :: "builder \<Rightarrow> certificate \<Rightarrow> builder option" where
  \<comment> \<open>Modelled from the spec: exactly one call.\<close>
  "peer_certificate b cert =
     (if b_peer_certificate b \<noteq> None then None
      else configure (\<lambda>b. b\<lparr>b_peer_certificate := Some cert\<rparr>) b)"

definition validation_time :: "builder \<Rightarrow> time \<Rightarrow> builder option" where
  "validation_time b t = configure (\<lambda>b. b\<lparr>b_validation_time := Some t\<rparr>) b"

definition extended_key_usage :: "builder \<Rightarrow> known_eku list \<Rightarrow> builder option" where
  "extended_key_usage b ekus = configure (\<lambda>b. b\<lparr>b_extended_key_usage := Some ekus\<rparr>) b"

definition features :: "builder \<Rightarrow> feature list \<Rightarrow> builder option" where
  "features b fs = configure (\<lambda>b. b\<lparr>b_features := fs\<rparr>) b"

definition conflicts_with :: "builder \<Rightarrow> string \<Rightarrow> builder option" where
  "conflicts_with b i = configure (\<lambda>b. b\<lparr>b_conflicts_with := b_conflicts_with b @ [i]\<rparr>) b"

definition expected_peer_name :: "builder \<Rightarrow> peer_name \<Rightarrow> builder option" where
  "expected_peer_name b pn = configure (\<lambda>b. b\<lparr>b_expected_peer_name := Some pn\<rparr>) b"

definition expected_peer_names :: "builder \<Rightarrow> peer_name list \<Rightarrow> builder option" where
  "expected_peer_names b pns = configure (\<lambda>b. b\<lparr>b_expected_peer_names := Some pns\<rparr>) b"

definition finalize :: "expected_result \<Rightarrow> builder \<Rightarrow> builder option" where
  \<comment> \<open>Modelled from the spec: the terminal call, exactly once; it needs the validation kind
      and the peer certificate, and finalizes and registers the Testcase.\<close>
  "finalize r b =
     (if b_phase b \<noteq> CONFIGURE then None
      else
        (case (b_validation_kind b, b_peer_certificate b) of
           (Some k, Some peer) \<Rightarrow>
             Some (b\<lparr>b_phase := TERMINAL,
                     b_registered := b_registered b @
                       [\<lparr>tc_id = b_id b,
                         tc_description = b_description b,
                         tc_conflicts_with = b_conflicts_with b,
                         tc_features = b_features b,
                         tc_validation_kind = k,
                         tc_trusted_certs = b_trusted_certs b,
                         tc_untrusted_intermediates = b_untrusted_intermediates b,
                         tc_peer_certificate = peer,
                         tc_validation_time = b_validation_time b,
                         tc_extended_key_usage = b_extended_key_usage b,
                         tc_expected_result = r,
                         tc_expected_peer_name = b_expected_peer_name b,
                         tc_expected_peer_names = b_expected_peer_names b,
                         tc_max_chain_depth = None\<rparr>]\<rparr>)
         | _ \<Rightarrow> None))"

definition succeeds :: "builder \<Rightarrow> builder option" where
  "succeeds b = finalize SUCCESS b"

definition fails :: "builder \<Rightarrow> builder option" where
  "fails b = finalize FAILURE b"

section \<open>The testcases\<close>

text \<open>
  The bodies of the testcase functions of \<^verbatim>\<open>rfc5280.py\<close> and \<^verbatim>\<open>rfc5280/nc.py\<close>, statement by
  statement: a call on the builder is a step of the option monad, and a chain of calls is
  the sequence of its steps.
\<close>

definition CN :: "string \<Rightarrow> name" where
  \<comment> \<open>\<^verbatim>\<open>x509.Name([x509.NameAttribute(x509.NameOID.COMMON_NAME, s)])\<close>\<close>
  "CN s = [(''CN'', s)]"

definition ca_empty_subject :: "builder \<Rightarrow> builder option" where
  \<comment> \<open>\<^verbatim>\<open>rfc5280.py\<close>, lines 39 to 57\<close>
  "ca_empty_subject builder = do {
     (root, builder) \<leftarrow> root_ca builder (no_args\<lparr>arg_subject := Given []\<rparr>);
     (leaf, builder) \<leftarrow> leaf_cert builder root no_args;
     builder \<leftarrow> server_validation builder;
     builder \<leftarrow> trusted_certs builder [root];
     builder \<leftarrow> peer_certificate builder leaf;
     builder \<leftarrow> expected_peer_name builder \<lparr>kind = DNS, pn_value = ''example.com''\<rparr>;
     fails builder
   }"

definition self_signed_root_missing_aki :: "builder \<Rightarrow> builder option" where
  \<comment> \<open>\<^verbatim>\<open>rfc5280.py\<close>, lines 175 to 200\<close>
  "self_signed_root_missing_aki builder = do {
     (root, builder) \<leftarrow> root_ca builder (no_args\<lparr>arg_aki := Given None\<rparr>);
     (leaf, builder) \<leftarrow> leaf_cert builder root no_args;
     builder \<leftarrow> server_validation builder;
     builder \<leftarrow> trusted_certs builder [root];
     builder \<leftarrow> peer_certificate builder leaf;
     succeeds builder
   }"

definition leaf_missing_aki :: "builder \<Rightarrow> builder option" where
  \<comment> \<open>\<^verbatim>\<open>rfc5280.py\<close>, lines 255 to 277\<close>
  "leaf_missing_aki builder = do {
     (root, builder) \<leftarrow> root_ca builder no_args;
     (leaf, builder) \<leftarrow> leaf_cert builder root (no_args\<lparr>arg_aki := Given None\<rparr>);
     builder \<leftarrow> server_validation builder;
     builder \<leftarrow> trusted_certs builder [root];
     builder \<leftarrow> peer_certificate builder leaf;
     fails builder
   }"

definition multiple_chains_expired_intermediate :: "builder \<Rightarrow> builder option" where
  \<comment> \<open>\<^verbatim>\<open>rfc5280.py\<close>, lines 335 to 365\<close>
  "multiple_chains_expired_intermediate builder = do {
     (root, builder) \<leftarrow> root_ca builder no_args;
     (root_two, builder) \<leftarrow>
       root_ca builder (no_args\<lparr>arg_issuer := Given (CN ''x509-limbo-root-2'')\<rparr>);
     (expired_intermediate, builder) \<leftarrow>
       intermediate_ca builder root_two
         (no_args\<lparr>arg_pathlen := Given (Some 1),
                  arg_subject := Given (cert_subject root),
                  arg_not_after := Given ''1988-11-25T00:00:00Z'',
                  arg_key := Given (cert_key root),
                  arg_ski := Given (Some (Ext (cert_key root) False))\<rparr>);
     (leaf, builder) \<leftarrow> leaf_cert builder root no_args;
     builder \<leftarrow> server_validation builder;
     builder \<leftarrow> trusted_certs builder [root, root_two];
     builder \<leftarrow> untrusted_intermediates builder [expired_intermediate];
     builder \<leftarrow> peer_certificate builder leaf;
     succeeds builder
   }"




definition permitted_self_issued :: "builder \<Rightarrow> builder option" where
  \<comment> \<open>\<^verbatim>\<open>rfc5280/nc.py\<close>, lines 581 to 625\<close>
  "permitted_self_issued builder = do {
     (root, builder) \<leftarrow>
       root_ca builder
         (no_args\<lparr>arg_issuer := Given (CN ''not-example.com''),
                  arg_subject := Given (CN ''not-example.com''),
                  arg_san := Given (Some (Ext [DNSName ''not-example.com''] False)),
                  arg_name_constraints := Given (Some (Ext
                    \<lparr>permitted_subtrees = Some [DNSName ''example.com''],
                     excluded_subtrees = None\<rparr> True))\<rparr>);
     (intermediate, builder) \<leftarrow>
       intermediate_ca builder root
         (no_args\<lparr>arg_issuer := Given (CN ''not-example.com''),
                  arg_subject := Given (CN ''not-example.com''),
                  arg_san := Given (Some (Ext [DNSName ''not-example.com''] False))\<rparr>);
     (leaf, builder) \<leftarrow> leaf_cert builder intermediate no_args;
     builder \<leftarrow> server_validation builder;
     builder \<leftarrow> trusted_certs builder [root];
     builder \<leftarrow> untrusted_intermediates builder [intermediate];
     builder \<leftarrow> peer_certificate builder leaf;
     succeeds builder
   }"

definition excluded_self_issued_leaf :: "builder \<Rightarrow> builder option" where
  \<comment> \<open>\<^verbatim>\<open>rfc5280/nc.py\<close>, lines 627 to 672\<close>
  "excluded_self_issued_leaf builder = do {
     (root, builder) \<leftarrow>
       root_ca builder
         (no_args\<lparr>arg_name_constraints := Given (Some (Ext
                    \<lparr>permitted_subtrees = Some [DNSName ''example.com''],
                     excluded_subtrees = None\<rparr> True))\<rparr>);
     (intermediate, builder) \<leftarrow>
       intermediate_ca builder root
         (no_args\<lparr>arg_subject := Given (CN ''not-example.com''),
                  arg_san := Given (Some (Ext [DNSName ''not-example.com''] False))\<rparr>);
     (leaf, builder) \<leftarrow>
       leaf_cert builder intermediate
         (no_args\<lparr>arg_issuer := Given (CN ''not-example.com''),
                  arg_subject := Given (CN ''not-example.com''),
                  arg_san := Given (Some (Ext [DNSName ''not-example.com''] False))\<rparr>);
     builder \<leftarrow> server_validation builder;
     builder \<leftarrow> trusted_certs builder [root];
     builder \<leftarrow> untrusted_intermediates builder [intermediate];
     builder \<leftarrow> peer_certificate builder leaf;
     builder \<leftarrow> expected_peer_name builder \<lparr>kind = DNS, pn_value = ''not-example.com''\<rparr>;
     fails builder
   }"

section \<open>The registry of testcase producers\<close>

text \<open>
  \<^verbatim>\<open>testcases.registry\<close> is a dictionary from testcase id to a zero-argument producer, in
  registration order (\<^verbatim>\<open>_compile\<close> reads it with \<^verbatim>\<open>registry.items()\<close> and calls each value).
  The module that fills it (\<^verbatim>\<open>limbo.testcases._core\<close>) is not among the sources.
\<close>

type_synonym producer = "unit \<Rightarrow> error + testcase"

type_synonym registry = "(string \<times> producer) list"

definition register :: "string \<Rightarrow> producer \<Rightarrow> registry \<Rightarrow> error + registry" where
  \<comment> \<open>Modelled from the spec: the registry's \<^verbatim>\<open>register(id, producer)\<close> of section 4.3, missing
      with \<^verbatim>\<open>_core\<close>: a duplicate id is a fatal construction error, a new id is appended.\<close>
  "register i p reg =
     (if i \<in> fst ` set reg then Inl (AuthoringError ''duplicate testcase id'')
      else Inr (reg @ [(i, p)]))"

fun register_testcases :: "testcase list \<Rightarrow> registry \<Rightarrow> error + registry" where
  \<comment> \<open>Modelled from the spec: an external corpus adapter of section 4.4 (\<^verbatim>\<open>bettertls\<close>,
      \<^verbatim>\<open>online\<close>, both missing) registers pre-built Testcases, each under its own id.\<close>
  "register_testcases [] reg = Inr reg"
| "register_testcases (tc # tcs) reg =
     (case register (tc_id tc) (\<lambda>_. Inr tc) reg of
        Inl e \<Rightarrow> Inl e
      | Inr reg \<Rightarrow> register_testcases tcs reg)"

definition produce ::
  "cert_defaults \<Rightarrow> string \<Rightarrow> string \<Rightarrow> (builder \<Rightarrow> builder option) \<Rightarrow> producer" where
  \<comment> \<open>Modelled from the spec: the producer the missing decorator \<^verbatim>\<open>testcase\<close> wraps around a
      testcase function: a builder of the testcase's id is driven by the function and must
      have registered one Testcase; an authoring error is fatal.\<close>
  "produce d i description func =
     (\<lambda>_. case func (Builder d i description) of
             None \<Rightarrow> Inl (AuthoringError ''illegal builder transition'')
           | Some b \<Rightarrow>
               (case b_registered b of
                  [tc] \<Rightarrow> Inr tc
                | _ \<Rightarrow> Inl (AuthoringError ''missing terminal call'')))"


section \<open>The calls made on a builder\<close>

text \<open>
  To say which calls were made before the terminal call, the calls of the state CONFIGURE
  are written as data and run on the builder in order. \<open>drive\<close> is the protocol after the
  certificate constructions: one kind selector, the calls, the terminal call. A builder is
  \<open>fresh\<close> when it is as \<open>Builder\<close> made it, but for the keys generated by certificate
  constructions.
\<close>

datatype config_call =
    Trusted_certs "certificate list"
  | Untrusted_intermediates "certificate list"
  | Peer_certificate certificate
  | Validation_time time
  | Extended_key_usage "known_eku list"
  | Features "feature list"
  | Conflicts_with string
  | Expected_peer_name peer_name
  | Expected_peer_names "peer_name list"

fun call :: "config_call \<Rightarrow> builder \<Rightarrow> builder option" where
  "call (Trusted_certs certs) b = trusted_certs b certs"
| "call (Untrusted_intermediates certs) b = untrusted_intermediates b certs"
| "call (Peer_certificate cert) b = peer_certificate b cert"
| "call (Validation_time t) b = validation_time b t"
| "call (Extended_key_usage ekus) b = extended_key_usage b ekus"
| "call (Features fs) b = features b fs"
| "call (Conflicts_with i) b = conflicts_with b i"
| "call (Expected_peer_name pn) b = expected_peer_name b pn"
| "call (Expected_peer_names pns) b = expected_peer_names b pns"

fun calls :: "config_call list \<Rightarrow> builder \<Rightarrow> builder option" where
  "calls [] b = Some b"
| "calls (c # cs) b = (case call c b of None \<Rightarrow> None | Some b' \<Rightarrow> calls cs b')"

definition drive ::
  "validation_kind \<Rightarrow> config_call list \<Rightarrow> (builder \<Rightarrow> builder option) \<Rightarrow> builder
     \<Rightarrow> builder option" where
  "drive k cs terminal b = do {
     b \<leftarrow> select_kind k b;
     b \<leftarrow> calls cs b;
     terminal b
   }"

fun peer_name_called :: "config_call list \<Rightarrow> peer_name option \<Rightarrow> peer_name option" where
  \<comment> \<open>the argument of the last call of \<^verbatim>\<open>expected_peer_name\<close>; \<open>acc\<close> when there is none\<close>
  "peer_name_called [] acc = acc"
| "peer_name_called (Expected_peer_name pn # cs) acc = peer_name_called cs (Some pn)"
| "peer_name_called (c # cs) acc = peer_name_called cs acc"

fun peer_names_called ::
  "config_call list \<Rightarrow> peer_name list option \<Rightarrow> peer_name list option" where
  \<comment> \<open>the argument of the last call of \<^verbatim>\<open>expected_peer_names\<close>; \<open>acc\<close> when there is none\<close>
  "peer_names_called [] acc = acc"
| "peer_names_called (Expected_peer_names pns # cs) acc = peer_names_called cs (Some pns)"
| "peer_names_called (c # cs) acc = peer_names_called cs acc"

fun is_peer_certificate :: "config_call \<Rightarrow> bool" where
  "is_peer_certificate (Peer_certificate cert) = True"
| "is_peer_certificate c = False"

fun is_expected_peer_name :: "config_call \<Rightarrow> bool" where
  "is_expected_peer_name (Expected_peer_name pn) = True"
| "is_expected_peer_name c = False"

fun is_expected_peer_names :: "config_call \<Rightarrow> bool" where
  "is_expected_peer_names (Expected_peer_names pns) = True"
| "is_expected_peer_names c = False"

definition fresh :: "builder \<Rightarrow> bool" where
  "fresh b =
     (b_phase b = INIT \<and> b_conflicts_with b = [] \<and> b_features b = []
      \<and> b_validation_kind b = None \<and> b_trusted_certs b = []
      \<and> b_untrusted_intermediates b = [] \<and> b_peer_certificate b = None
      \<and> b_validation_time b = None \<and> b_extended_key_usage b = None
      \<and> b_expected_peer_name b = None \<and> b_expected_peer_names b = None
      \<and> b_registered b = [])"

section \<open>The command-line front end: \<^verbatim>\<open>_cli.py\<close>\<close>

subsection \<open>Bytes and text\<close>

text \<open>
  A file and a pipe hold bytes; the program handles text. A text that the program reads,
  writes or pipes is represented by its UTF-8 code units, so encoding it as UTF-8 is the
  identity and decoding bytes is
  the check that they are well-formed UTF-8 (Python's strict decoder: no overlong form, no
  surrogate, nothing above U+10FFFF), which raises \<^verbatim>\<open>UnicodeDecodeError\<close> otherwise. The
  locale encoding, which \<^verbatim>\<open>Path.read_text\<close>, \<^verbatim>\<open>Path.write_text\<close> and \<^verbatim>\<open>Path.open\<close> use, is taken
  to be UTF-8 too, and the line separator to be LF (POSIX).
\<close>

type_synonym bytes = string

definition CR :: char where
  "CR = CHR 0x0D"

definition LF :: char where
  "LF = CHR 0x0A"

definition between :: "nat \<Rightarrow> nat \<Rightarrow> char \<Rightarrow> bool" where
  "between lo hi c = (lo \<le> of_char c \<and> of_char c \<le> hi)"

definition second_byte :: "nat \<Rightarrow> char \<Rightarrow> bool" where
  \<comment> \<open>the byte after the lead byte \<open>b\<close> of a three- or four-byte form\<close>
  "second_byte b c =
     (if b = 0xE0 then between 0xA0 0xBF c
      else if b = 0xED then between 0x80 0x9F c
      else if b = 0xF0 then between 0x90 0xBF c
      else if b = 0xF4 then between 0x80 0x8F c
      else between 0x80 0xBF c)"

fun utf8_valid :: "bytes \<Rightarrow> bool" where
  "utf8_valid [] = True"
| "utf8_valid (c # cs) =
     (let b = (of_char c :: nat)
      in if b < 0x80 then utf8_valid cs
         else if 0xC2 \<le> b \<and> b \<le> 0xDF then
           (case cs of
              c1 # rest \<Rightarrow> between 0x80 0xBF c1 \<and> utf8_valid rest
            | _ \<Rightarrow> False)
         else if 0xE0 \<le> b \<and> b \<le> 0xEF then
           (case cs of
              c1 # c2 # rest \<Rightarrow>
                second_byte b c1 \<and> between 0x80 0xBF c2 \<and> utf8_valid rest
            | _ \<Rightarrow> False)
         else if 0xF0 \<le> b \<and> b \<le> 0xF4 then
           (case cs of
              c1 # c2 # c3 # rest \<Rightarrow>
                second_byte b c1 \<and> between 0x80 0xBF c2 \<and> between 0x80 0xBF c3
                \<and> utf8_valid rest
            | _ \<Rightarrow> False)
         else False)"

definition decode :: "bytes \<Rightarrow> error + string" where
  \<comment> \<open>\<^verbatim>\<open>bytes.decode("utf-8")\<close>, errors strict\<close>
  "decode data = (if utf8_valid data then Inr data else Inl UnicodeDecodeError)"

fun universal_newlines :: "string \<Rightarrow> string" where
  \<comment> \<open>\<^verbatim>\<open>s.replace("\r\n", "\n").replace("\r", "\n")\<close>, which is also what a file opened in
      text mode with \<^verbatim>\<open>newline=None\<close> returns\<close>
  "universal_newlines [] = []"
| "universal_newlines [c] = [if c = CR then LF else c]"
| "universal_newlines (c # d # cs) =
     (if c = CR \<and> d = LF then LF # universal_newlines cs
      else if c = CR then LF # universal_newlines (d # cs)
      else c # universal_newlines (d # cs))"

definition translate_newlines :: "bytes \<Rightarrow> error + string" where
  \<comment> \<open>\<^verbatim>\<open>Popen._translate_newlines\<close>: decode, then turn CR LF and CR into LF\<close>
  "translate_newlines data =
     (case decode data of
        Inl e \<Rightarrow> Inl e
      | Inr s \<Rightarrow> Inr (universal_newlines s))"

subsection \<open>Files, streams and processes\<close>

text \<open>
  The file store maps the path of a regular file to its bytes; \<open>dirs\<close> are the directories,
  beside the current directory, the empty path, which always is one. A path is the list of
  its components. \<open>piped\<close> logs every process started, with the bytes written to its
  standard input. The standard streams of the program itself are kept as text.
\<close>

type_synonym path = "string list"

definition parent :: "path \<Rightarrow> path" where
  "parent p = butlast p"

record world =
  files :: "path \<rightharpoonup> bytes"
  dirs :: "path set"
  stdout :: string
  stderr :: string
  piped :: "(string \<times> bytes) list"
  online_cache :: "testcase list"

datatype outcome = Returned world | Crashed error world
  \<comment> \<open>a command returns normally, or an exception leaves it: with the world as it is then\<close>

record process_exit =
  returncode :: int
  exit_stdout :: bytes
  exit_stderr :: bytes

record completed_process =
  cp_stdout :: string
  cp_stderr :: string

type_synonym programs = "string \<Rightarrow> (bytes \<Rightarrow> process_exit) option"
  \<comment> \<open>the executables of the environment: what each does with its standard input;
      \<open>None\<close> when it cannot be started\<close>

definition is_dir :: "path \<Rightarrow> world \<Rightarrow> bool" where
  "is_dir p w = (p = [] \<or> p \<in> dirs w)"

definition missing_parent :: "path \<Rightarrow> world \<Rightarrow> error" where
  \<comment> \<open>the error of a path whose parent is not a directory\<close>
  "missing_parent p w =
     (if parent p \<in> dom (files w) then NotADirectoryError else FileNotFoundError)"

definition os_mkdir :: "path \<Rightarrow> world \<Rightarrow> error + world" where
  "os_mkdir p w =
     (if \<not> is_dir (parent p) w then Inl (missing_parent p w)
      else if is_dir p w \<or> p \<in> dom (files w) then Inl FileExistsError
      else Inr (w\<lparr>dirs := insert p (dirs w)\<rparr>))"

definition mkdir :: "path \<Rightarrow> world \<Rightarrow> error + world" where
  \<comment> \<open>\<^verbatim>\<open>Path.mkdir(exist_ok=True)\<close>, \<^verbatim>\<open>parents\<close> false: \<^verbatim>\<open>FileNotFoundError\<close> is raised again;
      another \<^verbatim>\<open>OSError\<close> is raised again unless the path is a directory\<close>
  "mkdir p w =
     (case os_mkdir p w of
        Inr w' \<Rightarrow> Inr w'
      | Inl e \<Rightarrow>
          if e = FileNotFoundError then Inl e
          else if is_dir p w then Inr w
          else Inl e)"

definition read_text :: "path \<Rightarrow> world \<Rightarrow> error + string" where
  \<comment> \<open>\<^verbatim>\<open>Path.read_text()\<close>: the file is opened in text mode, decoded, and its newlines
      translated\<close>
  "read_text p w =
     (case files w p of
        None \<Rightarrow>
          if is_dir p w then Inl IsADirectoryError
          else if \<not> is_dir (parent p) w then Inl (missing_parent p w)
          else Inl FileNotFoundError
      | Some data \<Rightarrow> translate_newlines data)"

definition open_w :: "path \<Rightarrow> world \<Rightarrow> error + world" where
  \<comment> \<open>\<^verbatim>\<open>open(mode="w")\<close> creates the file, or truncates it\<close>
  "open_w p w =
     (if is_dir p w then Inl IsADirectoryError
      else if \<not> is_dir (parent p) w then Inl (missing_parent p w)
      else Inr (w\<lparr>files := (files w)(p \<mapsto> [])\<rparr>))"

definition write_text :: "path \<Rightarrow> string \<Rightarrow> world \<Rightarrow> error + world" where
  \<comment> \<open>\<^verbatim>\<open>Path.write_text(s)\<close>: the file is opened for writing and the text written\<close>
  "write_text p s w =
     (case open_w p w of
        Inl e \<Rightarrow> Inl e
      | Inr w \<Rightarrow> Inr (w\<lparr>files := (files w)(p \<mapsto> s)\<rparr>))"

definition print_file :: "path \<Rightarrow> string \<Rightarrow> world \<Rightarrow> world" where
  \<comment> \<open>\<^verbatim>\<open>print(s, file=io)\<close> on an open file: the text and a newline are appended\<close>
  "print_file p s w =
     w\<lparr>files := (files w)(p \<mapsto> (case files w p of None \<Rightarrow> [] | Some t \<Rightarrow> t) @ s @ [LF])\<rparr>"

definition print_stdout :: "string \<Rightarrow> world \<Rightarrow> world" where
  "print_stdout s w = w\<lparr>stdout := stdout w @ s @ [LF]\<rparr>"

definition print_stderr :: "string \<Rightarrow> world \<Rightarrow> world" where
  "print_stderr s w = w\<lparr>stderr := stderr w @ s @ [LF]\<rparr>"

definition subprocess_run ::
  "programs \<Rightarrow> string \<Rightarrow> string \<Rightarrow> world \<Rightarrow> (error + completed_process) \<times> world" where
  \<comment> \<open>\<^verbatim>\<open>subprocess.run([exe], input=..., encoding="utf-8", capture_output=True, check=True)\<close>:
      the input is encoded and written, the captured streams are decoded, standard output
      first, and only then a non-zero return code raises \<^verbatim>\<open>CalledProcessError\<close>, which
      carries the decoded streams\<close>
  "subprocess_run progs exe input w =
     (case progs exe of
        None \<Rightarrow> (Inl OSError, w)
      | Some run \<Rightarrow>
          (let result = run input;
               w = w\<lparr>piped := piped w @ [(exe, input)]\<rparr>
           in case translate_newlines (exit_stdout result) of
                Inl e \<Rightarrow> (Inl e, w)
              | Inr out \<Rightarrow>
                  (case translate_newlines (exit_stderr result) of
                     Inl e \<Rightarrow> (Inl e, w)
                   | Inr err \<Rightarrow>
                       if returncode result \<noteq> 0
                       then (Inl (CalledProcessError (returncode result) out err), w)
                       else (Inr \<lparr>cp_stdout = out, cp_stderr = err\<rparr>, w))))"

subsection \<open>The Limbo model\<close>

text \<open>
  The pydantic class \<^verbatim>\<open>Limbo\<close> is declared in \<^verbatim>\<open>limbo.models\<close>, which is not among the
  sources: its schema validation and its JSON codec are taken as parameters.
\<close>

record limbo_model =
  validates :: "limbo \<Rightarrow> bool"
  model_validate_json :: "string \<Rightarrow> limbo option"
  json :: "limbo \<Rightarrow> string"
  model_dump_json :: "limbo \<Rightarrow> string"

definition Limbo :: "limbo_model \<Rightarrow> int \<Rightarrow> testcase list \<Rightarrow> error + limbo" where
  \<comment> \<open>the constructor \<^verbatim>\<open>Limbo(version=v, testcases=tcs)\<close>, which validates\<close>
  "Limbo m v tcs =
     (let l = \<lparr>version = v, testcases = tcs\<rparr>
      in if validates m l then Inr l else Inl ValidationError)"

subsection \<open>\<^verbatim>\<open>limbo harness\<close>\<close>

record harness_args =
  h_limbo :: path
  h_output :: path
  h_include :: "string option"
  h_exclude :: "string option"
  h_harness :: string

definition harness_filter ::
  "string option \<Rightarrow> string option \<Rightarrow> testcase list \<Rightarrow> testcase list" where
  \<comment> \<open>lines 123 to 126: \<^verbatim>\<open>if args.include:\<close> and \<^verbatim>\<open>if args.exclude:\<close> test the truth value
      of the pattern, which \<^verbatim>\<open>None\<close> and the empty string both lack\<close>
  "harness_filter include exclude tcs =
     (let tcs = (case include of
                   Some pat \<Rightarrow> if pat \<noteq> [] then [tc \<leftarrow> tcs. fnmatch (tc_id tc) pat] else tcs
                 | None \<Rightarrow> tcs);
          tcs = (case exclude of
                   Some pat \<Rightarrow> if pat \<noteq> [] then [tc \<leftarrow> tcs. \<not> fnmatch (tc_id tc) pat] else tcs
                 | None \<Rightarrow> tcs)
      in tcs)"

definition filtered_json ::
  "limbo_model \<Rightarrow> string option \<Rightarrow> string option \<Rightarrow> string \<Rightarrow> error + string" where
  \<comment> \<open>lines 122 to 127, the body of the \<^verbatim>\<open>if\<close>\<close>
  "filtered_json m include exclude limbo_json =
     (case model_validate_json m limbo_json of
        None \<Rightarrow> Inl ValidationError
      | Some doc \<Rightarrow>
          (case Limbo m 1 (harness_filter include exclude (testcases doc)) of
             Inl e \<Rightarrow> Inl e
           | Inr l \<Rightarrow> Inr (json m l)))"

fun harness_finish :: "path \<Rightarrow> (error + completed_process) \<times> world \<Rightarrow> outcome" where
  \<comment> \<open>lines 133 to 135: the result is written, or the \<^verbatim>\<open>CalledProcessError\<close> is caught and
      its standard error printed; any other exception leaves the command\<close>
  "harness_finish out (Inr result, w) =
     (case write_text out (cp_stdout result) w of
        Inl e \<Rightarrow> Crashed e w
      | Inr w' \<Rightarrow> Returned w')"
| "harness_finish out (Inl (CalledProcessError rc so se), w) = Returned (print_stderr se w)"
| "harness_finish out (Inl e, w) = Crashed e w"

definition harness :: "limbo_model \<Rightarrow> programs \<Rightarrow> harness_args \<Rightarrow> world \<Rightarrow> outcome" where
  "harness m progs args w =
     (case mkdir (parent (h_output args)) w of
        Inl e \<Rightarrow> Crashed e w
      | Inr w \<Rightarrow>
     (case read_text (h_limbo args) w of
        Inl e \<Rightarrow> Crashed e w
      | Inr limbo_json \<Rightarrow>
     (case (if h_include args \<noteq> None \<or> h_exclude args \<noteq> None
            then filtered_json m (h_include args) (h_exclude args) limbo_json
            else Inr limbo_json) of
        Inl e \<Rightarrow> Crashed e w
      | Inr limbo_json \<Rightarrow>
          harness_finish (h_output args)
            (subprocess_run progs (h_harness args) limbo_json w))))"

subsection \<open>\<^verbatim>\<open>limbo compile\<close>\<close>

record compile_args =
  c_output :: "path option"
  c_online :: bool
  c_force :: bool

record adapters =
  online_fetch :: "error + testcase list"
  bettertls_corpus :: "error + testcase list"

definition online_compile :: "adapters \<Rightarrow> world \<Rightarrow> error + world" where
  \<comment> \<open>Modelled from the spec: \<^verbatim>\<open>online.compile()\<close>, missing with its module; by section 4.4
      it performs network I/O (it may fail) and refreshes the adapter's local cache.\<close>
  "online_compile ad w =
     (case online_fetch ad of
        Inl e \<Rightarrow> Inl e
      | Inr tcs \<Rightarrow> Inr (w\<lparr>online_cache := tcs\<rparr>))"

definition bettertls_register_testcases :: "adapters \<Rightarrow> registry \<Rightarrow> error + registry" where
  \<comment> \<open>Modelled from the spec: \<^verbatim>\<open>bettertls.register_testcases()\<close>, missing with its module; by
      section 4.4 it derives fixtures from a third-party corpus and registers them.\<close>
  "bettertls_register_testcases ad reg =
     (case bettertls_corpus ad of
        Inl e \<Rightarrow> Inl e
      | Inr tcs \<Rightarrow> register_testcases tcs reg)"

definition online_register_testcases :: "world \<Rightarrow> registry \<Rightarrow> error + registry" where
  \<comment> \<open>Modelled from the spec: \<^verbatim>\<open>online.register_testcases()\<close>, missing with its module; by
      section 4.4 it reads the local cache and registers the pre-built Testcases.\<close>
  "online_register_testcases w reg = register_testcases (online_cache w) reg"

definition registration ::
  "adapters \<Rightarrow> compile_args \<Rightarrow> registry \<Rightarrow> world \<Rightarrow> (error + registry) \<times> world" where
  \<comment> \<open>lines 103 to 107\<close>
  "registration ad args reg w =
     (case (if c_online args then online_compile ad w else Inr w) of
        Inl e \<Rightarrow> (Inl e, w)
      | Inr w \<Rightarrow>
     (case bettertls_register_testcases ad reg of
        Inl e \<Rightarrow> (Inl e, w)
      | Inr reg \<Rightarrow> (online_register_testcases w reg, w)))"

fun materialize :: "registry \<Rightarrow> error + testcase list" where
  \<comment> \<open>line 109: \<^verbatim>\<open>[testcase() for _, testcase in testcases.registry.items()]\<close>\<close>
  "materialize [] = Inr []"
| "materialize ((i, testcase) # reg) =
     (case testcase () of
        Inl e \<Rightarrow> Inl e
      | Inr tc \<Rightarrow>
          (case materialize reg of
             Inl e \<Rightarrow> Inl e
           | Inr tcs \<Rightarrow> Inr (tc # tcs)))"

definition combined_document ::
  "limbo_model \<Rightarrow> adapters \<Rightarrow> registry \<Rightarrow> compile_args \<Rightarrow> world \<Rightarrow> (error + limbo) \<times> world" where
  \<comment> \<open>lines 103 to 110: the value of \<^verbatim>\<open>combined\<close>\<close>
  "combined_document m ad reg args w =
     (case registration ad args reg w of
        (Inl e, w) \<Rightarrow> (Inl e, w)
      | (Inr reg, w) \<Rightarrow>
     (case materialize reg of
        Inl e \<Rightarrow> (Inl e, w)
      | Inr all_testcases \<Rightarrow> (Limbo m 1 all_testcases, w)))"

definition compile ::
  "limbo_model \<Rightarrow> adapters \<Rightarrow> registry \<Rightarrow> compile_args \<Rightarrow> world \<Rightarrow> outcome" where
  \<comment> \<open>lines 112 to 114 after \<open>combined_document\<close>: the output is opened only then\<close>
  "compile m ad reg args w =
     (case combined_document m ad reg args w of
        (Inl e, w) \<Rightarrow> Crashed e w
      | (Inr combined, w) \<Rightarrow>
          (case c_output args of
             Some p \<Rightarrow>
               (case open_w p w of
                  Inl e \<Rightarrow> Crashed e w
                | Inr w' \<Rightarrow> Returned (print_file p (model_dump_json m combined) w'))
           | None \<Rightarrow> Returned (print_stdout (model_dump_json m combined) w)))"

section \<open>The filter as the specification words it\<close>

text \<open>
  The specification's filter, to compare with \<open>harness_filter\<close>: include narrows to the
  matches when a pattern is given, exclude then removes the matches when a pattern is
  given. \<open>scan_and_match\<close> is the independent linear scan that counts the selected ids.
\<close>

definition claimed_filter ::
  "string option \<Rightarrow> string option \<Rightarrow> testcase list \<Rightarrow> testcase list" where
  "claimed_filter include exclude tcs =
     (let kept = (case include of
                    None \<Rightarrow> tcs
                  | Some pat \<Rightarrow> filter (\<lambda>tc. fnmatch (tc_id tc) pat) tcs)
      in case exclude of
           None \<Rightarrow> kept
         | Some pat \<Rightarrow> filter (\<lambda>tc. \<not> fnmatch (tc_id tc) pat) kept)"

definition selected :: "string option \<Rightarrow> string option \<Rightarrow> string \<Rightarrow> bool" where
  "selected include exclude i =
     ((case include of None \<Rightarrow> True | Some pat \<Rightarrow> fnmatch i pat)
      \<and> (case exclude of None \<Rightarrow> True | Some pat \<Rightarrow> \<not> fnmatch i pat))"

fun scan_and_match :: "string option \<Rightarrow> string option \<Rightarrow> testcase list \<Rightarrow> nat" where
  "scan_and_match include exclude [] = 0"
| "scan_and_match include exclude (tc # tcs) =
     (if selected include exclude (tc_id tc) then 1 else 0)
     + scan_and_match include exclude tcs"

definition effective_pattern :: "string option \<Rightarrow> string option" where
  \<comment> \<open>the pattern that filters: one that is given and is not the empty string\<close>
  "effective_pattern pat = (case pat of Some (c # cs) \<Rightarrow> Some (c # cs) | _ \<Rightarrow> None)"

section \<open>Sample values\<close>

definition sample_certificate :: "string \<Rightarrow> nat \<Rightarrow> certificate" where
  "sample_certificate cn k =
     \<lparr>cert_subject = [(''CN'', cn)], cert_issuer = [(''CN'', ''x509-limbo-root'')],
      cert_key = Key k, cert_signing_key = Key 0,
      cert_not_before = ''1970-01-01T00:00:01Z'', cert_not_after = ''2969-05-03T00:00:00Z'',
      cert_ca = (k = 0), cert_pathlen = None, cert_aki = Some (Ext (Key 0) False),
      cert_ski = Some (Ext (Key k) False), cert_san = None, cert_name_constraints = None\<rparr>"

definition sample_testcase :: "string \<Rightarrow> expected_result \<Rightarrow> testcase" where
  "sample_testcase i r =
     \<lparr>tc_id = i, tc_description = ''sample'', tc_conflicts_with = [], tc_features = [],
      tc_validation_kind = SERVER,
      tc_trusted_certs = [sample_certificate ''x509-limbo-root'' 0],
      tc_untrusted_intermediates = [],
      tc_peer_certificate = sample_certificate ''example.com'' 1,
      tc_validation_time = None, tc_extended_key_usage = None,
      tc_expected_result = r, tc_expected_peer_name = None,
      tc_expected_peer_names = None, tc_max_chain_depth = None\<rparr>"

definition world_of :: "outcome \<Rightarrow> world" where
  \<comment> \<open>the world a command leaves behind, however it ends\<close>
  "world_of out = (case out of Returned w \<Rightarrow> w | Crashed e w \<Rightarrow> w)"

definition sample_json :: "limbo \<Rightarrow> string" where
  "sample_json l =
     (if version l = 1 then ''v1'' else ''v2'')
     @ concat (map (\<lambda>tc. CHR '' '' # tc_id tc) (testcases l))"

definition sample_model :: limbo_model where
  "sample_model =
     \<lparr>validates = (\<lambda>l. True),
      model_validate_json =
        (\<lambda>s. if s = ''v2 a b''
             then Some \<lparr>version = 2,
                        testcases = [sample_testcase ''a'' SUCCESS, sample_testcase ''b'' FAILURE]\<rparr>
             else None),
      json = sample_json,
      model_dump_json = sample_json\<rparr>"

definition strict_model :: limbo_model where
  \<comment> \<open>a schema that accepts empty documents only\<close>
  "strict_model = sample_model\<lparr>validates := (\<lambda>l. testcases l = [])\<rparr>"


definition sample_programs :: programs where
  \<comment> \<open>\<open>./harness\<close> accepts the document \<open>v1 a\<close> and rejects any other input; \<open>./crlf\<close> ends
      its line of output with CR LF; \<open>./binary\<close> fails with a byte on its standard error
      that is not UTF-8\<close>
  "sample_programs =
     (\<lambda>exe. if exe = ''./harness''
            then Some (\<lambda>input.
                   \<lparr>returncode = (if input = ''v1 a'' then 0 else 1),
                    exit_stdout = ''results for '' @ input,
                    exit_stderr = ''unsupported document''\<rparr>)
            else if exe = ''./crlf''
            then Some (\<lambda>input.
                   \<lparr>returncode = 0, exit_stdout = ''ok'' @ [CR, LF], exit_stderr = []\<rparr>)
            else if exe = ''./binary''
            then Some (\<lambda>input.
                   \<lparr>returncode = 1, exit_stdout = [], exit_stderr = [CHR 0xFF]\<rparr>)
            else None)"

definition sample_world :: world where
  "sample_world =
     \<lparr>files = [[''limbo.json''] \<mapsto> ''v2 a b'',
               [''crlf.json''] \<mapsto> ''v2'' @ [CR, LF] @ ''a'',
               [''out'', ''results.json''] \<mapsto> ''old''],
      dirs = {[''out'']},
      stdout = [], stderr = [], piped = [], online_cache = []\<rparr>"

definition sample_harness_args :: "string option \<Rightarrow> string option \<Rightarrow> harness_args" where
  "sample_harness_args include exclude =
     \<lparr>h_limbo = [''limbo.json''], h_output = [''out'', ''results.json''],
      h_include = include, h_exclude = exclude, h_harness = ''./harness''\<rparr>"

definition sample_compile_args :: compile_args where
  "sample_compile_args =
     \<lparr>c_output = Some [''out'', ''results.json''], c_online = False, c_force = False\<rparr>"

definition no_adapters :: adapters where
  "no_adapters = \<lparr>online_fetch = Inr [], bettertls_corpus = Inr []\<rparr>"

definition sample_defaults :: cert_defaults where
  "sample_defaults =
     \<lparr>d_root_name = CN ''x509-limbo-root'',
      d_intermediate_subject = CN ''x509-limbo-intermediate'',
      d_leaf_subject = CN ''example.com'',
      d_not_before = ''1970-01-01T00:00:01Z'',
      d_not_after = ''2969-05-03T00:00:00Z'',
      d_leaf_san = Some (Ext [DNSName ''example.com''] False)\<rparr>"

section \<open>Self-issuance and name constraints, to state the scenarios\<close>

text \<open>
  The repository validates no path; these predicates only say what the scenarios of the
  name-constraint testcases are. A certificate is self-issued when its issuer name equals
  its subject name (the specification's glossary). A dNSName is within a subtree when it is
  the subtree's name or that name with labels added on the left (RFC 5280, 4.2.1.10).
\<close>

definition self_issued :: "certificate \<Rightarrow> bool" where
  "self_issued c = (cert_issuer c = cert_subject c)"

fun dns_names :: "general_name list \<Rightarrow> string list" where
  "dns_names [] = []"
| "dns_names (DNSName n # gs) = n # dns_names gs"
| "dns_names (g # gs) = dns_names gs"

definition san_dns_names :: "certificate \<Rightarrow> string list" where
  "san_dns_names c = (case cert_san c of None \<Rightarrow> [] | Some e \<Rightarrow> dns_names (ext_value e))"

definition permitted_dns :: "certificate \<Rightarrow> string list" where
  "permitted_dns ca =
     (case cert_name_constraints ca of
        None \<Rightarrow> []
      | Some e \<Rightarrow>
          (case permitted_subtrees (ext_value e) of
             None \<Rightarrow> []
           | Some gs \<Rightarrow> dns_names gs))"

definition dns_within :: "string \<Rightarrow> string \<Rightarrow> bool" where
  "dns_within n base =
     (n = base
      \<or> (length base < length n
          \<and> drop (length n - length base - 1) n = CHR ''.'' # base))"

definition violates_permitted_dns :: "certificate \<Rightarrow> certificate \<Rightarrow> bool" where
  \<comment> \<open>\<open>ca\<close> permits dNSName subtrees and a dNSName of \<open>c\<close> is within none of them\<close>
  "violates_permitted_dns ca c =
     (permitted_dns ca \<noteq> []
      \<and> list_ex (\<lambda>n. list_all (\<lambda>base. \<not> dns_within n base) (permitted_dns ca))
                 (san_dns_names c))"

definition default_leaf_within :: "cert_defaults \<Rightarrow> string \<Rightarrow> bool" where
  \<comment> \<open>every dNSName of the subject alternative name a leaf gets when none is passed is
      within the subtree \<open>base\<close>\<close>
  "default_leaf_within d base =
     (case d_leaf_san d of
        None \<Rightarrow> True
      | Some e \<Rightarrow> list_all (\<lambda>n. dns_within n base) (dns_names (ext_value e)))"

section \<open>Producers and their ids\<close>

definition keyed :: "registry \<Rightarrow> bool" where
  \<comment> \<open>each producer, when it returns a Testcase, returns the one of the id it is
      registered under\<close>
  "keyed reg =
     list_all (\<lambda>(i, p). case p () of Inl e \<Rightarrow> True | Inr tc \<Rightarrow> tc_id tc = i) reg"

section \<open>The harness filter\<close>

lemma scan_and_match_filter:
  "scan_and_match include exclude tcs
     = length (filter (\<lambda>tc. selected include exclude (tc_id tc)) tcs)"
  by (induction tcs) simp_all

lemma claimed_filter_selected:
  "claimed_filter include exclude tcs
     = filter (\<lambda>tc. selected include exclude (tc_id tc)) tcs"
  by (cases "include"; cases exclude) (simp_all add: claimed_filter_def selected_def)

lemma harness_filter_effective:
  "harness_filter include exclude tcs
     = claimed_filter (effective_pattern include) (effective_pattern exclude) tcs"
  by (cases "include"; cases exclude)
     (auto simp: harness_filter_def claimed_filter_def effective_pattern_def
           split: list.splits)

text \<open>
  C3, as stated, fails: with the include pattern given as the empty string, which no
  non-empty id matches, the specification's filter keeps nothing, and the harness keeps
  every testcase, because \<^verbatim>\<open>if args.include:\<close> takes the empty pattern for no pattern.
\<close>

theorem harness_filter_empty_include_counterexample:
  "harness_filter (Some []) None [sample_testcase ''a'' FAILURE]
     = [sample_testcase ''a'' FAILURE]
   \<and> claimed_filter (Some []) None [sample_testcase ''a'' FAILURE] = []"
  by (simp add: harness_filter_def claimed_filter_def fnmatch_def sample_testcase_def)

text \<open>
  C3, amended: for every testcase sequence and every pair of optional patterns, the
  harness's filtered sequence is the specification's filter for the patterns that are
  given and not empty (include keeps exactly the matching ids, exclude then removes exactly
  the matching ids, in the input order), and its length is the count of the independent
  linear scan.
\<close>

theorem harness_filter_is_claimed_filter:
  "harness_filter include exclude tcs
     = claimed_filter (effective_pattern include) (effective_pattern exclude) tcs
   \<and> length (harness_filter include exclude tcs)
     = scan_and_match (effective_pattern include) (effective_pattern exclude) tcs"
  by (simp add: harness_filter_effective claimed_filter_selected scan_and_match_filter)

theorem harness_filter_is_claimed_filter_witness:
  "harness_filter (Some ''rfc5280::nc::*'') (Some ''*-leaf'')
     [sample_testcase ''rfc5280::nc::permitted-self-issued'' SUCCESS,
      sample_testcase ''rfc5280::leaf-missing-aki'' FAILURE,
      sample_testcase ''rfc5280::nc::excluded-self-issued-leaf'' FAILURE]
   = [sample_testcase ''rfc5280::nc::permitted-self-issued'' SUCCESS]
   \<and> scan_and_match (Some ''rfc5280::nc::*'') (Some ''*-leaf'')
     [sample_testcase ''rfc5280::nc::permitted-self-issued'' SUCCESS,
      sample_testcase ''rfc5280::leaf-missing-aki'' FAILURE,
      sample_testcase ''rfc5280::nc::excluded-self-issued-leaf'' FAILURE] = 1"
  using harness_filter_is_claimed_filter
    [of "Some ''rfc5280::nc::*''" "Some ''*-leaf''"
        "[sample_testcase ''rfc5280::nc::permitted-self-issued'' SUCCESS,
          sample_testcase ''rfc5280::leaf-missing-aki'' FAILURE,
          sample_testcase ''rfc5280::nc::excluded-self-issued-leaf'' FAILURE]"]
  by (simp add: harness_filter_def fnmatch_def sample_testcase_def effective_pattern_def)

section \<open>The harness runner\<close>

lemma universal_newlines_without_CR:
  "CR \<notin> set s \<Longrightarrow> universal_newlines s = s"
  by (induction s rule: universal_newlines.induct) auto

lemma mkdir_keeps:
  assumes "mkdir p w = Inr w1"
  shows "files w1 = files w" and "stdout w1 = stdout w" and "stderr w1 = stderr w"
    and "piped w1 = piped w" and "is_dir p w1"
  using assms
  by (auto simp: mkdir_def os_mkdir_def is_dir_def split: sum.splits if_splits)

lemma harness_started:
  assumes "mkdir (parent (h_output args)) w = Inr w1"
      and "read_text (h_limbo args) w1 = Inr text"
      and "(if h_include args \<noteq> None \<or> h_exclude args \<noteq> None
            then filtered_json m (h_include args) (h_exclude args) text
            else Inr text) = Inr limbo_json"
  shows "harness m progs args w
           = harness_finish (h_output args)
               (subprocess_run progs (h_harness args) limbo_json w1)"
  using assms by (simp add: harness_def)

lemma harness_finish_Inl_piped:
  "piped (world_of (harness_finish out (Inl e, w))) = piped w"
  by (cases e) (simp_all add: world_of_def print_stderr_def)

lemma harness_finish_Inr_piped:
  "piped (world_of (harness_finish out (Inr r, w))) = piped w"
  by (auto simp: world_of_def write_text_def open_w_def split: sum.splits if_splits)

lemma harness_finish_keeps_piped:
  "piped (world_of (harness_finish out (r, w))) = piped w"
  by (cases r) (simp_all only: harness_finish_Inl_piped harness_finish_Inr_piped)

lemma subprocess_run_piped:
  "progs exe = Some run \<Longrightarrow>
   piped (snd (subprocess_run progs exe input w)) = piped w @ [(exe, input)]"
  by (simp add: subprocess_run_def Let_def split: sum.splits)

lemma harness_finish_piped:
  assumes "progs exe = Some run"
  shows "piped (world_of (harness_finish out (subprocess_run progs exe input w)))
           = piped w @ [(exe, input)]"
proof -
  obtain r w' where rw: "subprocess_run progs exe input w = (r, w')"
    by (cases "subprocess_run progs exe input w")
  with subprocess_run_piped [of progs exe run input w] assms
  have "piped w' = piped w @ [(exe, input)]" by simp
  with rw show ?thesis by (simp only: harness_finish_keeps_piped)
qed

text \<open>
  C9, as stated, fails: the file is read as text, so the CR LF of \<open>crlf.json\<close> reaches the
  process as LF: the bytes piped are not the bytes of the file.
\<close>

theorem harness_pipes_translated_newlines_counterexample:
  "files sample_world [''crlf.json''] = Some (''v2'' @ [CR, LF] @ ''a'')
   \<and> piped (world_of
        (harness sample_model sample_programs
           \<lparr>h_limbo = [''crlf.json''], h_output = [''out'', ''results.json''],
            h_include = None, h_exclude = None, h_harness = ''./harness''\<rparr>
           sample_world))
     = [(''./harness'', ''v2'' @ [LF] @ ''a'')]"
  by (simp add: harness_def mkdir_def os_mkdir_def is_dir_def parent_def sample_world_def
      read_text_def translate_newlines_def decode_def between_def second_byte_def
      sample_programs_def subprocess_run_def world_of_def print_stderr_def CR_def LF_def)

text \<open>
  C9, amended: when neither pattern is supplied, the runner writes to the process's
  standard input the text it read from the document file, and the Limbo model is not
  consulted (no parse, no re-serialization: the run is the same under any model). The text
  read is the file's bytes decoded as UTF-8 with every CR LF and CR turned into LF, so the
  bytes piped are the file's bytes when these are UTF-8 without CR; a file that is not
  UTF-8 ends the runner with \<^verbatim>\<open>UnicodeDecodeError\<close> before any process is started.
\<close>

theorem harness_without_patterns_pipes_text_read:
  assumes "mkdir (parent (h_output args)) w = Inr w1"
      and "files w (h_limbo args) = Some data"
      and "progs (h_harness args) = Some run"
      and "h_include args = None" and "h_exclude args = None"
  shows "(utf8_valid data \<longrightarrow>
            piped (world_of (harness m progs args w))
              = piped w @ [(h_harness args, universal_newlines data)])
       \<and> (utf8_valid data \<and> CR \<notin> set data \<longrightarrow>
            piped (world_of (harness m progs args w)) = piped w @ [(h_harness args, data)])
       \<and> (\<not> utf8_valid data \<longrightarrow> harness m progs args w = Crashed UnicodeDecodeError w1)
       \<and> harness m progs args w = harness m' progs args w"
proof -
  have data: "files w1 (h_limbo args) = Some data"
    using mkdir_keeps(1) [OF assms(1)] assms(2) by simp
  have same: "harness m progs args w = harness m' progs args w"
    using assms(4,5) by (auto simp: harness_def split: sum.splits)
  have invalid: "harness m progs args w = Crashed UnicodeDecodeError w1"
    if "\<not> utf8_valid data"
    using that assms(1) data
    by (simp add: harness_def read_text_def translate_newlines_def decode_def)
  have valid: "piped (world_of (harness m progs args w))
                 = piped w @ [(h_harness args, universal_newlines data)]"
    if "utf8_valid data"
  proof -
    have "read_text (h_limbo args) w1 = Inr (universal_newlines data)"
      using that data by (simp add: read_text_def translate_newlines_def decode_def)
    with assms(1,4,5)
    have "harness m progs args w
            = harness_finish (h_output args)
                (subprocess_run progs (h_harness args) (universal_newlines data) w1)"
      by (intro harness_started) simp_all
    with harness_finish_piped
           [of progs "h_harness args" run "h_output args" "universal_newlines data" w1]
         assms(3) mkdir_keeps(4) [OF assms(1)]
    show ?thesis by simp
  qed
  from valid invalid same show ?thesis
    by (simp add: universal_newlines_without_CR)
qed

theorem harness_without_patterns_pipes_text_read_witness:
  "mkdir (parent (h_output (sample_harness_args None None))) sample_world = Inr sample_world
   \<and> files sample_world (h_limbo (sample_harness_args None None)) = Some ''v2 a b''
   \<and> piped (world_of (harness strict_model sample_programs (sample_harness_args None None)
                         sample_world))
     = [(''./harness'', ''v2 a b'')]"
proof -
  have m: "mkdir (parent (h_output (sample_harness_args None None))) sample_world
             = Inr sample_world"
    by (simp add: mkdir_def os_mkdir_def is_dir_def parent_def sample_harness_args_def
        sample_world_def)
  have f: "files sample_world (h_limbo (sample_harness_args None None)) = Some ''v2 a b''"
    by (simp add: sample_harness_args_def sample_world_def)
  have v: "utf8_valid ''v2 a b'' \<and> CR \<notin> set ''v2 a b''"
    by (simp add: CR_def)
  let ?run = "\<lambda>input. \<lparr>returncode = (if input = ''v1 a'' then 0 else 1),
                         exit_stdout = ''results for '' @ input,
                         exit_stderr = ''unsupported document''\<rparr>"
  have p: "sample_programs (h_harness (sample_harness_args None None)) = Some ?run"
    by (simp add: sample_programs_def sample_harness_args_def)
  from harness_without_patterns_pipes_text_read
    [of "sample_harness_args None None" sample_world sample_world "''v2 a b''"
        sample_programs ?run strict_model strict_model] m f p v
  have "piped (world_of (harness strict_model sample_programs
                           (sample_harness_args None None) sample_world))
          = piped sample_world @ [(h_harness (sample_harness_args None None), ''v2 a b'')]"
    by (simp add: sample_harness_args_def CR_def LF_def)
  with m f show ?thesis
    by (simp add: sample_world_def sample_harness_args_def)
qed

text \<open>
  C4, as stated, fails twice. The standard output of \<open>./crlf\<close>, which exits zero, ends with
  CR LF and the results file ends with LF: the output is not written verbatim. And
  \<open>./binary\<close>, which exits non-zero, writes a byte that is not UTF-8 to its standard error:
  decoding the captured stream raises before the exit status is looked at, the runner does
  not return and surfaces nothing.
\<close>

theorem harness_output_not_verbatim_counterexample:
  "harness sample_model sample_programs
     \<lparr>h_limbo = [''limbo.json''], h_output = [''out'', ''results.json''],
      h_include = None, h_exclude = None, h_harness = ''./crlf''\<rparr> sample_world
     = Returned (sample_world\<lparr>piped := [(''./crlf'', ''v2 a b'')],
                  files := (files sample_world)([''out'', ''results.json''] \<mapsto> ''ok'' @ [LF])\<rparr>)
   \<and> harness sample_model sample_programs
       \<lparr>h_limbo = [''limbo.json''], h_output = [''out'', ''results.json''],
        h_include = None, h_exclude = None, h_harness = ''./binary''\<rparr> sample_world
     = Crashed UnicodeDecodeError (sample_world\<lparr>piped := [(''./binary'', ''v2 a b'')]\<rparr>)"
  by (simp add: harness_def mkdir_def os_mkdir_def is_dir_def parent_def sample_world_def
      read_text_def translate_newlines_def decode_def between_def second_byte_def
      sample_programs_def subprocess_run_def write_text_def open_w_def CR_def LF_def)

text \<open>
  C4, amended: when the process has been started on its input and both captured streams
  are UTF-8, a non-zero exit status makes the runner return normally, with the decoded
  standard error of the process (its CR LF and CR turned into LF) and a newline appended to
  the runner's standard error, and no file written; a zero exit status makes it return
  with the decoded standard output of the process (its CR LF and CR turned into LF) as the
  content of the output path, when that path is not a directory: the output of the process
  as it is, when it has no CR.
\<close>

theorem harness_exit_status_decoded:
  assumes "mkdir (parent (h_output args)) w = Inr w1"
      and "read_text (h_limbo args) w1 = Inr text"
      and "(if h_include args \<noteq> None \<or> h_exclude args \<noteq> None
            then filtered_json m (h_include args) (h_exclude args) text
            else Inr text) = Inr limbo_json"
      and "progs (h_harness args) = Some run"
      and "translate_newlines (exit_stdout (run limbo_json)) = Inr out"
      and "translate_newlines (exit_stderr (run limbo_json)) = Inr err"
  shows "(returncode (run limbo_json) \<noteq> 0 \<longrightarrow>
            harness m progs args w
              = Returned (w1\<lparr>piped := piped w1 @ [(h_harness args, limbo_json)],
                             stderr := stderr w1 @ err @ [LF]\<rparr>))
       \<and> (returncode (run limbo_json) = 0 \<and> \<not> is_dir (h_output args) w1 \<longrightarrow>
            harness m progs args w
              = Returned (w1\<lparr>piped := piped w1 @ [(h_harness args, limbo_json)],
                             files := (files w1)(h_output args \<mapsto> out)\<rparr>))
       \<and> files w1 = files w \<and> stderr w1 = stderr w
       \<and> (CR \<notin> set (exit_stdout (run limbo_json)) \<longrightarrow>
            out = exit_stdout (run limbo_json))"
proof -
  have start: "harness m progs args w
          = harness_finish (h_output args)
              (subprocess_run progs (h_harness args) limbo_json w1)"
    using assms(1,2,3) by (rule harness_started)
  have dir: "is_dir (parent (h_output args)) w1"
    using mkdir_keeps(5) [OF assms(1)] .
  have nonzero: "harness m progs args w
              = Returned (w1\<lparr>piped := piped w1 @ [(h_harness args, limbo_json)],
                             stderr := stderr w1 @ err @ [LF]\<rparr>)"
    if "returncode (run limbo_json) \<noteq> 0"
    using that start assms(4,5,6)
    by (simp add: subprocess_run_def Let_def print_stderr_def)
  have zero: "harness m progs args w
              = Returned (w1\<lparr>piped := piped w1 @ [(h_harness args, limbo_json)],
                             files := (files w1)(h_output args \<mapsto> out)\<rparr>)"
    if "returncode (run limbo_json) = 0" and "\<not> is_dir (h_output args) w1"
    using that start assms(4,5,6) dir
    by (simp add: subprocess_run_def Let_def write_text_def open_w_def is_dir_def)
  have verbatim: "out = exit_stdout (run limbo_json)"
    if "CR \<notin> set (exit_stdout (run limbo_json))"
    using that assms(5)
    by (auto simp: translate_newlines_def decode_def universal_newlines_without_CR
        split: if_splits)
  from nonzero zero verbatim mkdir_keeps(1,3) [OF assms(1)] show ?thesis by simp
qed

theorem harness_exit_status_decoded_witness:
  "harness sample_model sample_programs (sample_harness_args None None) sample_world
     = Returned (sample_world\<lparr>piped := [(''./harness'', ''v2 a b'')],
                               stderr := ''unsupported document'' @ [LF]\<rparr>)
   \<and> files sample_world [''out'', ''results.json''] = Some ''old''
   \<and> harness sample_model sample_programs (sample_harness_args None (Some ''b''))
        sample_world
     = Returned (sample_world\<lparr>piped := [(''./harness'', ''v1 a'')],
                  files := (files sample_world)
                    ([''out'', ''results.json''] \<mapsto> ''results for v1 a'')\<rparr>)"
proof -
  let ?run = "\<lambda>input. \<lparr>returncode = (if input = ''v1 a'' then 0 else 1),
                         exit_stdout = ''results for '' @ input,
                         exit_stderr = ''unsupported document''\<rparr>"
  have m: "mkdir (parent (h_output (sample_harness_args i e))) sample_world
             = Inr sample_world" for i e
    by (simp add: mkdir_def os_mkdir_def is_dir_def parent_def sample_harness_args_def
        sample_world_def)
  have r: "read_text (h_limbo (sample_harness_args i e)) sample_world = Inr ''v2 a b''"
    for i e
    by (simp add: read_text_def translate_newlines_def decode_def sample_harness_args_def
        sample_world_def CR_def)
  have p: "sample_programs (h_harness (sample_harness_args i e)) = Some ?run" for i e
    by (simp add: sample_programs_def sample_harness_args_def)
  have nonzero:
    "harness sample_model sample_programs (sample_harness_args None None) sample_world
       = Returned (sample_world\<lparr>piped := [(''./harness'', ''v2 a b'')],
                                 stderr := ''unsupported document'' @ [LF]\<rparr>)"
    using harness_exit_status_decoded
      [of "sample_harness_args None None" sample_world sample_world "''v2 a b''"
          sample_model "''v2 a b''" sample_programs ?run
          "''results for v2 a b''" "''unsupported document''"] m r p
    by (simp add: sample_harness_args_def sample_world_def translate_newlines_def
        decode_def CR_def)
  have filtered:
    "filtered_json sample_model None (Some ''b'') ''v2 a b'' = Inr ''v1 a''"
    by (simp add: filtered_json_def sample_model_def Limbo_def harness_filter_def
        fnmatch_def sample_json_def sample_testcase_def)
  have zero:
    "harness sample_model sample_programs (sample_harness_args None (Some ''b''))
        sample_world
     = Returned (sample_world\<lparr>piped := [(''./harness'', ''v1 a'')],
                  files := (files sample_world)
                    ([''out'', ''results.json''] \<mapsto> ''results for v1 a'')\<rparr>)"
    using harness_exit_status_decoded
      [of "sample_harness_args None (Some ''b'')" sample_world sample_world "''v2 a b''"
          sample_model "''v1 a''" sample_programs ?run
          "''results for v1 a''" "''unsupported document''"] m r p filtered
    by (simp add: sample_harness_args_def sample_world_def translate_newlines_def
        decode_def CR_def is_dir_def)
  have "files sample_world [''out'', ''results.json''] = Some ''old''"
    by (simp add: sample_world_def)
  with nonzero zero show ?thesis by simp
qed

section \<open>The compiler\<close>

lemma registration_world:
  "registration ad args reg w = (r, w') \<Longrightarrow> files w' = files w \<and> stdout w' = stdout w"
  by (auto simp: registration_def online_compile_def split: if_splits sum.splits)

lemma materialize_raises:
  "(i, p) \<in> set reg \<Longrightarrow> p () = Inl e \<Longrightarrow> \<exists>e'. materialize reg = Inl e'"
  by (induction reg) (auto split: sum.splits)

lemma combined_document_world:
  "combined_document m ad reg args w = (r, w') \<Longrightarrow> files w' = files w \<and> stdout w' = stdout w"
  by (auto simp: combined_document_def split: prod.splits sum.splits
      dest: registration_world)

text \<open>
  C5: when a registered producer raises or the Limbo envelope fails validation, the
  command ends with that exception and the file store (and standard output) as they were:
  the output file is neither created nor truncated. Every exception of the command leaves
  them so, since the output is opened after the envelope has been constructed.
\<close>

theorem compile_failure_writes_nothing:
  assumes "registration ad args reg w = (Inr reg', w')"
      and "(\<exists>i p e. (i, p) \<in> set reg' \<and> p () = Inl e)
           \<or> (\<exists>tcs. materialize reg' = Inr tcs
                  \<and> \<not> validates m \<lparr>version = 1, testcases = tcs\<rparr>)"
  shows "(\<exists>e. compile m ad reg args w = Crashed e w')
       \<and> files w' = files w \<and> stdout w' = stdout w
       \<and> (\<forall>e2 w2. compile m ad reg args w = Crashed e2 w2 \<longrightarrow>
             files w2 = files w \<and> stdout w2 = stdout w)"
proof -
  have crash: "\<exists>e. compile m ad reg args w = Crashed e w'"
    using assms(2)
  proof
    assume "\<exists>i p e. (i, p) \<in> set reg' \<and> p () = Inl e"
    then obtain e' where "materialize reg' = Inl e'"
      using materialize_raises by blast
    with assms(1) show ?thesis
      by (simp add: compile_def combined_document_def)
  next
    assume "\<exists>tcs. materialize reg' = Inr tcs
              \<and> \<not> validates m \<lparr>version = 1, testcases = tcs\<rparr>"
    with assms(1) show ?thesis
      by (auto simp: compile_def combined_document_def Limbo_def)
  qed
  have same: "files w' = files w \<and> stdout w' = stdout w"
    using assms(1) by (rule registration_world)
  have any: "files w2 = files w \<and> stdout w2 = stdout w"
    if "compile m ad reg args w = Crashed e2 w2" for e2 w2
    using that
    by (auto simp: compile_def split: prod.splits sum.splits option.splits
        dest: combined_document_world)
  from crash same any show ?thesis by blast
qed

theorem compile_failure_writes_nothing_witness:
  "compile sample_model no_adapters
     [(''a'', \<lambda>_. Inr (sample_testcase ''a'' SUCCESS)),
      (''b'', \<lambda>_. Inl (AuthoringError ''missing terminal call''))]
     sample_compile_args sample_world
     = Crashed (AuthoringError ''missing terminal call'') sample_world
   \<and> files sample_world [''out'', ''results.json''] = Some ''old''
   \<and> compile strict_model no_adapters
       [(''a'', \<lambda>_. Inr (sample_testcase ''a'' SUCCESS))]
       sample_compile_args sample_world
     = Crashed ValidationError sample_world"
proof -
  have reg: "registration no_adapters sample_compile_args r sample_world
               = (Inr r, sample_world)" for r
    by (simp add: registration_def no_adapters_def sample_compile_args_def
        bettertls_register_testcases_def online_register_testcases_def sample_world_def)
  have "\<exists>e. compile sample_model no_adapters
               [(''a'', \<lambda>_. Inr (sample_testcase ''a'' SUCCESS)),
                (''b'', \<lambda>_. Inl (AuthoringError ''missing terminal call''))]
               sample_compile_args sample_world = Crashed e sample_world"
    using compile_failure_writes_nothing
      [OF reg, of "[(''a'', \<lambda>_. Inr (sample_testcase ''a'' SUCCESS)),
                    (''b'', \<lambda>_. Inl (AuthoringError ''missing terminal call''))]"
          sample_model]
    by fastforce
  then have first:
    "compile sample_model no_adapters
       [(''a'', \<lambda>_. Inr (sample_testcase ''a'' SUCCESS)),
        (''b'', \<lambda>_. Inl (AuthoringError ''missing terminal call''))]
       sample_compile_args sample_world
     = Crashed (AuthoringError ''missing terminal call'') sample_world"
    by (simp add: compile_def combined_document_def reg)
  have second:
    "compile strict_model no_adapters
       [(''a'', \<lambda>_. Inr (sample_testcase ''a'' SUCCESS))]
       sample_compile_args sample_world
     = Crashed ValidationError sample_world"
    by (simp add: compile_def combined_document_def reg Limbo_def strict_model_def
        sample_model_def)
  have "files sample_world [''out'', ''results.json''] = Some ''old''"
    by (simp add: sample_world_def)
  with first second show ?thesis by simp
qed

section \<open>The version of the documents\<close>

lemma filtered_json_Inr:
  "filtered_json m inc exc text = Inr limbo_json \<longleftrightarrow>
     (\<exists>input. model_validate_json m text = Some input
        \<and> validates m \<lparr>version = 1, testcases = harness_filter inc exc (testcases input)\<rparr>
        \<and> limbo_json
            = json m \<lparr>version = 1, testcases = harness_filter inc exc (testcases input)\<rparr>)"
  by (auto simp: filtered_json_def Limbo_def Let_def split: option.splits if_splits)

lemma combined_document_Inr:
  "combined_document m ad reg args w = (Inr doc, w') \<longleftrightarrow>
     (\<exists>reg' tcs. registration ad args reg w = (Inr reg', w') \<and> materialize reg' = Inr tcs
        \<and> validates m \<lparr>version = 1, testcases = tcs\<rparr>
        \<and> doc = \<lparr>version = 1, testcases = tcs\<rparr>)"
  by (auto simp: combined_document_def Limbo_def Let_def
      split: prod.splits sum.splits if_splits)

lemma compile_Returned:
  "compile m ad reg args w = Returned w3 \<longleftrightarrow>
     (\<exists>doc w1. combined_document m ad reg args w = (Inr doc, w1)
        \<and> (case c_output args of
              None \<Rightarrow> w3 = print_stdout (model_dump_json m doc) w1
            | Some p \<Rightarrow>
                (\<exists>w2. open_w p w1 = Inr w2 \<and> w3 = print_file p (model_dump_json m doc) w2)))"
  by (auto simp: compile_def split: prod.splits sum.splits option.splits)

lemma open_w_truncates:
  "open_w p w = Inr w2 \<Longrightarrow> files w2 p = Some []"
  by (auto simp: open_w_def split: if_splits)

text \<open>
  C10: whenever the compiler constructs its envelope, the envelope has version 1 and the
  materialized testcases; it is what the compiler prints, to standard output or to the
  output file it has opened, and every document the compiler has written when it returns
  has version 1. When a pattern is supplied, the document the harness runner serializes,
  and pipes to the process, has version 1 and the filtered testcases of the input
  document, whatever version the input declared.
\<close>

theorem emitted_documents_have_version_1:
  "(combined_document m ad reg args w = (Inr doc, w') \<longrightarrow> version doc = 1)
   \<and> (registration ad args reg w = (Inr reg', wr) \<and> materialize reg' = Inr tcs
        \<and> validates m \<lparr>version = 1, testcases = tcs\<rparr> \<longrightarrow>
        combined_document m ad reg args w = (Inr \<lparr>version = 1, testcases = tcs\<rparr>, wr)
        \<and> (c_output args = None \<longrightarrow>
             compile m ad reg args w
               = Returned (print_stdout
                            (model_dump_json m \<lparr>version = 1, testcases = tcs\<rparr>) wr))
        \<and> (\<forall>p wo. c_output args = Some p \<and> open_w p wr = Inr wo \<longrightarrow>
             compile m ad reg args w
               = Returned (print_file p
                            (model_dump_json m \<lparr>version = 1, testcases = tcs\<rparr>) wo)))
   \<and> (compile m ad reg args w = Returned wend \<longrightarrow>
        (\<exists>tcs. (case c_output args of
                  Some p \<Rightarrow>
                    files wend p
                      = Some (model_dump_json m \<lparr>version = 1, testcases = tcs\<rparr> @ [LF])
                | None \<Rightarrow>
                    stdout wend
                      = stdout w @ model_dump_json m \<lparr>version = 1, testcases = tcs\<rparr>
                          @ [LF])))
   \<and> (model_validate_json m limbo_text = Some input
        \<and> validates m \<lparr>version = 1, testcases = harness_filter inc exc (testcases input)\<rparr>
        \<longrightarrow>
        filtered_json m inc exc limbo_text
          = Inr (json m \<lparr>version = 1,
                         testcases = harness_filter inc exc (testcases input)\<rparr>))
   \<and> (filtered_json m inc exc limbo_text = Inr limbo_json \<longrightarrow>
        (\<exists>input. model_validate_json m limbo_text = Some input
           \<and> limbo_json
               = json m \<lparr>version = 1,
                         testcases = harness_filter inc exc (testcases input)\<rparr>))
   \<and> (mkdir (parent (h_output hargs)) hw = Inr hwd
        \<and> read_text (h_limbo hargs) hwd = Inr limbo_text
        \<and> (h_include hargs \<noteq> None \<or> h_exclude hargs \<noteq> None)
        \<and> model_validate_json m limbo_text = Some input
        \<and> validates m
             \<lparr>version = 1,
              testcases = harness_filter (h_include hargs) (h_exclude hargs)
                            (testcases input)\<rparr>
        \<and> progs (h_harness hargs) = Some run \<longrightarrow>
        piped (world_of (harness m progs hargs hw))
          = piped hw @
              [(h_harness hargs,
                json m \<lparr>version = 1,
                        testcases = harness_filter (h_include hargs) (h_exclude hargs)
                                      (testcases input)\<rparr>)])"
proof -
  have a: "version doc = 1" if "combined_document m ad reg args w = (Inr doc, w')"
    using that by (auto simp: combined_document_Inr)
  have b1: "combined_document m ad reg args w
              = (Inr \<lparr>version = 1, testcases = tcs\<rparr>, wr)"
    if "registration ad args reg w = (Inr reg', wr)" and "materialize reg' = Inr tcs"
      and "validates m \<lparr>version = 1, testcases = tcs\<rparr>"
    using that by (simp add: combined_document_def Limbo_def)
  have b2: "compile m ad reg args w
              = Returned (print_stdout
                           (model_dump_json m \<lparr>version = 1, testcases = tcs\<rparr>) wr)"
    if "registration ad args reg w = (Inr reg', wr)" and "materialize reg' = Inr tcs"
      and "validates m \<lparr>version = 1, testcases = tcs\<rparr>" and "c_output args = None"
    using b1 [OF that(1,2,3)] that(4) by (simp add: compile_def)
  have b3: "compile m ad reg args w
              = Returned (print_file p
                           (model_dump_json m \<lparr>version = 1, testcases = tcs\<rparr>) wo)"
    if "registration ad args reg w = (Inr reg', wr)" and "materialize reg' = Inr tcs"
      and "validates m \<lparr>version = 1, testcases = tcs\<rparr>"
      and "c_output args = Some p" and "open_w p wr = Inr wo" for p wo
    using b1 [OF that(1,2,3)] that(4,5) by (simp add: compile_def)
  have c: "\<exists>tcs. (case c_output args of
                  Some p \<Rightarrow>
                    files wend p
                      = Some (model_dump_json m \<lparr>version = 1, testcases = tcs\<rparr> @ [LF])
                | None \<Rightarrow>
                    stdout wend
                      = stdout w @ model_dump_json m \<lparr>version = 1, testcases = tcs\<rparr>
                          @ [LF])"
    if ret: "compile m ad reg args w = Returned wend"
  proof -
    from ret obtain doc wr where cd: "combined_document m ad reg args w = (Inr doc, wr)"
      and out: "case c_output args of
                  None \<Rightarrow> wend = print_stdout (model_dump_json m doc) wr
                | Some p \<Rightarrow>
                    (\<exists>wo. open_w p wr = Inr wo
                       \<and> wend = print_file p (model_dump_json m doc) wo)"
      unfolding compile_Returned by blast
    from cd obtain tcs where doc: "doc = \<lparr>version = 1, testcases = tcs\<rparr>"
      unfolding combined_document_Inr by blast
    have s: "stdout wr = stdout w"
      using combined_document_world [OF cd] by simp
    show ?thesis
    proof (cases "c_output args")
      case None
      with out s doc show ?thesis
        by (intro exI [of _ tcs]) (simp add: print_stdout_def)
    next
      case (Some p)
      with out obtain wo where o: "open_w p wr = Inr wo"
        and wend: "wend = print_file p (model_dump_json m doc) wo"
        by auto
      from open_w_truncates [OF o] wend doc Some show ?thesis
        by (intro exI [of _ tcs]) (simp add: print_file_def)
    qed
  qed
  have d: "filtered_json m inc exc limbo_text
          = Inr (json m \<lparr>version = 1,
                         testcases = harness_filter inc exc (testcases input)\<rparr>)"
    if "model_validate_json m limbo_text = Some input"
      and "validates m
             \<lparr>version = 1, testcases = harness_filter inc exc (testcases input)\<rparr>"
    for inc exc
    using that by (simp add: filtered_json_Inr)
  have e: "\<exists>input. model_validate_json m limbo_text = Some input
           \<and> limbo_json
               = json m \<lparr>version = 1,
                         testcases = harness_filter inc exc (testcases input)\<rparr>"
    if "filtered_json m inc exc limbo_text = Inr limbo_json"
    using that unfolding filtered_json_Inr by blast
  have f: "piped (world_of (harness m progs hargs hw))
          = piped hw @
              [(h_harness hargs,
                json m \<lparr>version = 1,
                        testcases = harness_filter (h_include hargs) (h_exclude hargs)
                                      (testcases input)\<rparr>)]"
    if mk: "mkdir (parent (h_output hargs)) hw = Inr hwd"
      and rd: "read_text (h_limbo hargs) hwd = Inr limbo_text"
      and pat: "h_include hargs \<noteq> None \<or> h_exclude hargs \<noteq> None"
      and parsed: "model_validate_json m limbo_text = Some input"
      and ok: "validates m
             \<lparr>version = 1,
              testcases = harness_filter (h_include hargs) (h_exclude hargs)
                            (testcases input)\<rparr>"
      and prog: "progs (h_harness hargs) = Some run"
  proof -
    let ?json = "json m \<lparr>version = 1,
                        testcases = harness_filter (h_include hargs) (h_exclude hargs)
                                      (testcases input)\<rparr>"
    from d [OF parsed ok] pat
    have "(if h_include hargs \<noteq> None \<or> h_exclude hargs \<noteq> None
           then filtered_json m (h_include hargs) (h_exclude hargs) limbo_text
           else Inr limbo_text) = Inr ?json"
      by simp
    with mk rd
    have "harness m progs hargs hw
            = harness_finish (h_output hargs)
                (subprocess_run progs (h_harness hargs) ?json hwd)"
      by (rule harness_started)
    with harness_finish_piped [of progs "h_harness hargs" run "h_output hargs" ?json hwd]
         prog mkdir_keeps(4) [OF mk]
    show ?thesis by simp
  qed
  show ?thesis
    apply (intro conjI impI allI)
    subgoal by (rule a)
    subgoal by (elim conjE) (rule b1)
    subgoal by (elim conjE) (rule b2)
    subgoal by (elim conjE) (rule b3)
    subgoal by (rule c)
    subgoal by (elim conjE) (rule d)
    subgoal by (rule e)
    subgoal by (elim conjE) (rule f)
    done
qed

theorem emitted_documents_have_version_1_witness:
  "compile sample_model no_adapters
     [(''a'', \<lambda>_. Inr (sample_testcase ''a'' SUCCESS)),
      (''b'', \<lambda>_. Inr (sample_testcase ''b'' FAILURE))]
     sample_compile_args sample_world
     = Returned (sample_world
         \<lparr>files := (files sample_world)([''out'', ''results.json''] \<mapsto> ''v1 a b'' @ [LF])\<rparr>)
   \<and> model_validate_json sample_model ''v2 a b''
     = Some \<lparr>version = 2,
             testcases = [sample_testcase ''a'' SUCCESS, sample_testcase ''b'' FAILURE]\<rparr>
   \<and> filtered_json sample_model (Some ''*'') None ''v2 a b'' = Inr ''v1 a b''
   \<and> piped (world_of (harness sample_model sample_programs
                         (sample_harness_args (Some ''*'') None) sample_world))
     = [(''./harness'', ''v1 a b'')]"
proof -
  let ?reg = "[(''a'', \<lambda>_. Inr (sample_testcase ''a'' SUCCESS)),
               (''b'', \<lambda>_. Inr (sample_testcase ''b'' FAILURE))]"
  let ?tcs = "[sample_testcase ''a'' SUCCESS, sample_testcase ''b'' FAILURE]"
  let ?run = "\<lambda>input. \<lparr>returncode = (if input = ''v1 a'' then 0 else 1),
                         exit_stdout = ''results for '' @ input,
                         exit_stderr = ''unsupported document''\<rparr>"
  let ?hargs = "sample_harness_args (Some ''*'') None"
  let ?w2 = "sample_world\<lparr>files := (files sample_world)([''out'', ''results.json''] \<mapsto> [])\<rparr>"
  note version_1 =
    emitted_documents_have_version_1
      [where m = sample_model and ad = no_adapters and reg = ?reg
         and args = sample_compile_args and w = sample_world and reg' = ?reg
         and wr = sample_world and tcs = ?tcs
         and limbo_text = "''v2 a b''" and input = "\<lparr>version = 2, testcases = ?tcs\<rparr>"
         and inc = "Some ''*''" and exc = None
         and hargs = ?hargs and hw = sample_world and hwd = sample_world
         and progs = sample_programs and run = ?run]
  have reg: "registration no_adapters sample_compile_args ?reg sample_world
               = (Inr ?reg, sample_world)"
    by (simp add: registration_def no_adapters_def sample_compile_args_def
        bettertls_register_testcases_def online_register_testcases_def sample_world_def)
  have mat: "materialize ?reg = Inr ?tcs"
    by simp
  have ok: "validates sample_model l" for l
    by (simp add: sample_model_def)
  have out: "c_output sample_compile_args = Some [''out'', ''results.json'']"
    by (simp add: sample_compile_args_def)
  have opened: "open_w [''out'', ''results.json''] sample_world = Inr ?w2"
    by (simp add: open_w_def is_dir_def parent_def sample_world_def)
  have dump: "model_dump_json sample_model \<lparr>version = 1, testcases = ?tcs\<rparr> = ''v1 a b''"
    by (simp add: sample_model_def sample_json_def sample_testcase_def)
  from version_1 [THEN conjunct2, THEN conjunct1, rule_format,
                  OF conjI [OF reg conjI [OF mat ok]]]
  have "\<forall>p wo. c_output sample_compile_args = Some p \<and> open_w p sample_world = Inr wo
          \<longrightarrow>
          compile sample_model no_adapters ?reg sample_compile_args sample_world
            = Returned (print_file p
                (model_dump_json sample_model \<lparr>version = 1, testcases = ?tcs\<rparr>) wo)"
    by (elim conjE)
  from this [THEN spec, THEN spec, THEN mp, OF conjI [OF out opened]]
  have "compile sample_model no_adapters ?reg sample_compile_args sample_world
          = Returned (print_file [''out'', ''results.json'']
                        (model_dump_json sample_model \<lparr>version = 1, testcases = ?tcs\<rparr>) ?w2)" .
  then have compiled:
    "compile sample_model no_adapters ?reg sample_compile_args sample_world
       = Returned (sample_world
           \<lparr>files := (files sample_world)([''out'', ''results.json''] \<mapsto> ''v1 a b'' @ [LF])\<rparr>)"
    by (simp add: dump print_file_def)
  have parsed: "model_validate_json sample_model ''v2 a b''
                  = Some \<lparr>version = 2, testcases = ?tcs\<rparr>"
    by (simp add: sample_model_def)
  have filtered: "harness_filter (Some ''*'') None ?tcs = ?tcs"
    by (simp add: harness_filter_def fnmatch_def sample_testcase_def)
  have js: "json sample_model \<lparr>version = 1, testcases = ?tcs\<rparr> = ''v1 a b''"
    by (simp add: sample_model_def sample_json_def sample_testcase_def)
  from version_1 [THEN conjunct2, THEN conjunct2, THEN conjunct2, THEN conjunct1,
                  rule_format, OF conjI [OF parsed ok]]
  have "filtered_json sample_model (Some ''*'') None ''v2 a b''
          = Inr (json sample_model
                   \<lparr>version = 1, testcases = harness_filter (Some ''*'') None ?tcs\<rparr>)"
    by simp
  then have fj: "filtered_json sample_model (Some ''*'') None ''v2 a b'' = Inr ''v1 a b''"
    by (simp only: filtered js)
  have mk: "mkdir (parent (h_output ?hargs)) sample_world = Inr sample_world"
    by (simp add: mkdir_def os_mkdir_def is_dir_def parent_def sample_harness_args_def
        sample_world_def)
  have rd: "read_text (h_limbo ?hargs) sample_world = Inr ''v2 a b''"
    by (simp add: read_text_def translate_newlines_def decode_def sample_harness_args_def
        sample_world_def CR_def)
  have prog: "sample_programs (h_harness ?hargs) = Some ?run"
    by (simp add: sample_programs_def sample_harness_args_def)
  have pat: "h_include ?hargs \<noteq> None \<or> h_exclude ?hargs \<noteq> None"
    by (simp add: sample_harness_args_def)
  have hs: "h_include ?hargs = Some ''*''" "h_exclude ?hargs = None"
    "h_harness ?hargs = ''./harness''"
    by (simp_all add: sample_harness_args_def)
  from version_1 [THEN conjunct2, THEN conjunct2, THEN conjunct2, THEN conjunct2,
                  THEN conjunct2, rule_format,
                  OF conjI [OF mk conjI [OF rd conjI [OF pat conjI [OF parsed
                       conjI [OF ok prog]]]]]]
  have "piped (world_of (harness sample_model sample_programs ?hargs sample_world))
          = piped sample_world @
              [(''./harness'',
                json sample_model
                  \<lparr>version = 1, testcases = harness_filter (Some ''*'') None ?tcs\<rparr>)]"
    by (simp add: hs)
  then have piped:
    "piped (world_of (harness sample_model sample_programs ?hargs sample_world))
       = [(''./harness'', ''v1 a b'')]"
    by (simp add: filtered js sample_world_def)
  from compiled parsed fj piped show ?thesis by simp
qed

section \<open>The builder and the testcases\<close>

lemmas builder_ops =
  Builder_def root_ca_def intermediate_ca_def leaf_cert_def key_pair_def from_arg_def
  no_args_def select_kind_def server_validation_def client_validation_def configure_def
  trusted_certs_def untrusted_intermediates_def peer_certificate_def
  expected_peer_name_def expected_peer_names_def finalize_def succeeds_def fails_def

lemma finalize_registers:
  "finalize r b = Some b' \<longleftrightarrow>
     b_phase b = CONFIGURE
     \<and> (\<exists>k peer. b_validation_kind b = Some k \<and> b_peer_certificate b = Some peer
          \<and> b' = b\<lparr>b_phase := TERMINAL,
                    b_registered := b_registered b @
                      [\<lparr>tc_id = b_id b,
                        tc_description = b_description b,
                        tc_conflicts_with = b_conflicts_with b,
                        tc_features = b_features b,
                        tc_validation_kind = k,
                        tc_trusted_certs = b_trusted_certs b,
                        tc_untrusted_intermediates = b_untrusted_intermediates b,
                        tc_peer_certificate = peer,
                        tc_validation_time = b_validation_time b,
                        tc_extended_key_usage = b_extended_key_usage b,
                        tc_expected_result = r,
                        tc_expected_peer_name = b_expected_peer_name b,
                        tc_expected_peer_names = b_expected_peer_names b,
                        tc_max_chain_depth = None\<rparr>]\<rparr>)"
  by (auto simp: finalize_def split: option.splits)

text \<open>
  C6: the builder driven through \<^verbatim>\<open>root_ca()\<close>, \<^verbatim>\<open>leaf_cert(root, aki=None)\<close>,
  \<^verbatim>\<open>server_validation()\<close>, \<^verbatim>\<open>trusted_certs(root)\<close>, \<^verbatim>\<open>peer_certificate(leaf)\<close> and \<^verbatim>\<open>fails()\<close>,
  as \<open>leaf_missing_aki\<close> drives it, ends with exactly one registered Testcase: its expected
  result is FAILURE, its validation kind SERVER, its trusted certificates the root alone,
  its untrusted intermediates none (and its peer certificate the leaf, which has no AKI).
\<close>

theorem leaf_missing_aki_registers_one_failure:
  "\<exists>root b1 leaf b2 b tc.
     root_ca (Builder d i description) no_args = Some (root, b1)
     \<and> leaf_cert b1 root (no_args\<lparr>arg_aki := Given None\<rparr>) = Some (leaf, b2)
     \<and> leaf_missing_aki (Builder d i description) = Some b
     \<and> b_registered b = [tc]
     \<and> tc_expected_result tc = FAILURE
     \<and> tc_validation_kind tc = SERVER
     \<and> tc_trusted_certs tc = [root]
     \<and> tc_untrusted_intermediates tc = []
     \<and> tc_peer_certificate tc = leaf
     \<and> cert_aki leaf = None"
  by (simp add: leaf_missing_aki_def builder_ops)

theorem leaf_missing_aki_registers_one_failure_witness:
  "map (\<lambda>tc. (tc_id tc, tc_expected_result tc, tc_validation_kind tc,
               map cert_subject (tc_trusted_certs tc), tc_untrusted_intermediates tc))
     (case leaf_missing_aki (Builder sample_defaults ''rfc5280::leaf-missing-aki'' [])
      of None \<Rightarrow> [] | Some b \<Rightarrow> b_registered b)
   = [(''rfc5280::leaf-missing-aki'', FAILURE, SERVER, [CN ''x509-limbo-root''], [])]"
  using leaf_missing_aki_registers_one_failure
    [of sample_defaults "''rfc5280::leaf-missing-aki''" "[]"]
  by (simp add: leaf_missing_aki_def builder_ops sample_defaults_def)

section \<open>The calls made on a builder and the peer names of its Testcase\<close>

lemma fresh_Builder:
  "fresh (Builder d i description)"
  by (simp add: fresh_def Builder_def)

lemma fresh_root_ca:
  "root_ca b a = Some (c, b') \<Longrightarrow> fresh b \<Longrightarrow> fresh b'"
  by (auto simp: root_ca_def key_pair_def fresh_def Let_def
      split: if_splits arg.splits prod.splits)

lemma fresh_intermediate_ca:
  "intermediate_ca b signer a = Some (c, b') \<Longrightarrow> fresh b \<Longrightarrow> fresh b'"
  by (auto simp: intermediate_ca_def key_pair_def fresh_def Let_def
      split: if_splits arg.splits prod.splits)

lemma fresh_leaf_cert:
  "leaf_cert b signer a = Some (c, b') \<Longrightarrow> fresh b \<Longrightarrow> fresh b'"
  by (auto simp: leaf_cert_def key_pair_def fresh_def Let_def
      split: if_splits arg.splits prod.splits)

lemmas config_ops =
  trusted_certs_def untrusted_intermediates_def peer_certificate_def validation_time_def
  extended_key_usage_def features_def conflicts_with_def expected_peer_name_def
  expected_peer_names_def configure_def

lemma calls_Some:
  assumes "calls cs b = Some b'" and "b_phase b = CONFIGURE"
  shows "b_phase b' = CONFIGURE \<and> b_validation_kind b' = b_validation_kind b
       \<and> b_registered b' = b_registered b
       \<and> b_expected_peer_name b' = peer_name_called cs (b_expected_peer_name b)
       \<and> b_expected_peer_names b' = peer_names_called cs (b_expected_peer_names b)
       \<and> (b_peer_certificate b' \<noteq> None
            \<longleftrightarrow> b_peer_certificate b \<noteq> None \<or> list_ex is_peer_certificate cs)"
  using assms
proof (induction cs arbitrary: b)
  case Nil
  then show ?case by simp
next
  case (Cons c cs)
  from Cons.prems obtain b1 where c: "call c b = Some b1" and rest: "calls cs b1 = Some b'"
    by (auto split: option.splits)
  have b1: "b_phase b1 = CONFIGURE \<and> b_validation_kind b1 = b_validation_kind b
       \<and> b_registered b1 = b_registered b
       \<and> b_expected_peer_name b1 = peer_name_called [c] (b_expected_peer_name b)
       \<and> b_expected_peer_names b1 = peer_names_called [c] (b_expected_peer_names b)
       \<and> (b_peer_certificate b1 \<noteq> None
            \<longleftrightarrow> b_peer_certificate b \<noteq> None \<or> is_peer_certificate c)"
    using c Cons.prems(2)
    by (cases c) (auto simp: config_ops split: if_splits)
  from b1 have names:
    "peer_name_called cs (b_expected_peer_name b1)
       = peer_name_called (c # cs) (b_expected_peer_name b)"
    "peer_names_called cs (b_expected_peer_names b1)
       = peer_names_called (c # cs) (b_expected_peer_names b)"
    by (cases c; simp)+
  from b1 Cons.IH [OF rest] names show ?case by auto
qed

lemma calls_defined:
  "b_phase b = CONFIGURE \<Longrightarrow>
   calls cs b \<noteq> None
     \<longleftrightarrow> length (filter is_peer_certificate cs)
           \<le> (if b_peer_certificate b = None then 1 else 0)"
proof (induction cs arbitrary: b)
  case Nil
  then show ?case by simp
next
  case (Cons c cs)
  then show ?case
    by (cases c) (auto simp: config_ops)
qed

lemma peer_name_called_present:
  "peer_name_called cs acc \<noteq> None \<longleftrightarrow> acc \<noteq> None \<or> list_ex is_expected_peer_name cs"
  by (induction cs acc rule: peer_name_called.induct) simp_all

lemma peer_names_called_present:
  "peer_names_called cs acc \<noteq> None \<longleftrightarrow> acc \<noteq> None \<or> list_ex is_expected_peer_names cs"
  by (induction cs acc rule: peer_names_called.induct) simp_all

lemma drive_finalize_defined:
  assumes "fresh b0"
  shows "drive k cs (finalize r) b0 \<noteq> None
           \<longleftrightarrow> length (filter is_peer_certificate cs) = 1"
proof -
  let ?b1 = "b0\<lparr>b_phase := CONFIGURE, b_validation_kind := Some k\<rparr>"
  from assms have sel: "select_kind k b0 = Some ?b1"
    by (simp add: select_kind_def fresh_def)
  have conf: "b_phase ?b1 = CONFIGURE" by simp
  from assms have nopeer: "b_peer_certificate ?b1 = None"
    by (simp add: fresh_def)
  show ?thesis
  proof (cases "calls cs ?b1")
    case None
    with calls_defined [OF conf, of cs] nopeer sel show ?thesis
      by (simp add: drive_def)
  next
    case (Some b2)
    from calls_defined [OF conf, of cs] Some nopeer
    have le: "length (filter is_peer_certificate cs) \<le> 1" by simp
    from calls_Some [OF Some conf] nopeer
    have b2: "b_phase b2 = CONFIGURE" "b_validation_kind b2 = Some k"
      "b_peer_certificate b2 \<noteq> None \<longleftrightarrow> list_ex is_peer_certificate cs"
      by simp_all
    have ex: "list_ex is_peer_certificate cs
                \<longleftrightarrow> Suc 0 \<le> length (filter is_peer_certificate cs)"
      by (induction cs) auto
    have d: "drive k cs (finalize r) b0 = finalize r b2"
      using sel Some by (simp add: drive_def)
    have f: "finalize r b2 \<noteq> None \<longleftrightarrow> b_peer_certificate b2 \<noteq> None"
      using b2(1,2) by (auto simp: finalize_def split: option.splits)
    from d f b2(3) ex le show ?thesis by auto
  qed
qed

lemma drive_finalize_registers:
  assumes "fresh b0" and "drive k cs (finalize r) b0 = Some b"
  shows "\<exists>tc. b_registered b = [tc]
           \<and> tc_expected_result tc = r
           \<and> tc_validation_kind tc = k
           \<and> tc_expected_peer_name tc = peer_name_called cs None
           \<and> tc_expected_peer_names tc = peer_names_called cs None"
proof -
  let ?b1 = "b0\<lparr>b_phase := CONFIGURE, b_validation_kind := Some k\<rparr>"
  from assms(1) have sel: "select_kind k b0 = Some ?b1"
    by (simp add: select_kind_def fresh_def)
  with assms(2) obtain b2 where cs: "calls cs ?b1 = Some b2" and fin: "finalize r b2 = Some b"
    by (auto simp: drive_def split: option.splits Option.bind_splits)
  have conf: "b_phase ?b1 = CONFIGURE" by simp
  from calls_Some [OF cs conf] assms(1)
  have b2: "b_validation_kind b2 = Some k" "b_registered b2 = []"
    "b_expected_peer_name b2 = peer_name_called cs None"
    "b_expected_peer_names b2 = peer_names_called cs None"
    by (simp_all add: fresh_def)
  from fin b2 show ?thesis
    unfolding finalize_registers by auto
qed

lemma self_signed_root_missing_aki_calls:
  "self_signed_root_missing_aki builder = do {
     (root, builder) \<leftarrow> root_ca builder (no_args\<lparr>arg_aki := Given None\<rparr>);
     (leaf, builder) \<leftarrow> leaf_cert builder root no_args;
     drive SERVER [Trusted_certs [root], Peer_certificate leaf] succeeds builder
   }"
  by (auto simp: self_signed_root_missing_aki_def drive_def server_validation_def
      split: Option.bind_splits option.splits prod.splits)

lemma ca_empty_subject_calls:
  "ca_empty_subject builder = do {
     (root, builder) \<leftarrow> root_ca builder (no_args\<lparr>arg_subject := Given []\<rparr>);
     (leaf, builder) \<leftarrow> leaf_cert builder root no_args;
     drive SERVER
       [Trusted_certs [root], Peer_certificate leaf,
        Expected_peer_name \<lparr>kind = DNS, pn_value = ''example.com''\<rparr>] fails builder
   }"
  by (auto simp: ca_empty_subject_def drive_def server_validation_def
      split: Option.bind_splits option.splits prod.splits)




text \<open>
  C7, as stated, fails: \<open>ca_empty_subject\<close> calls \<^verbatim>\<open>expected_peer_name\<close> and then \<^verbatim>\<open>fails()\<close>;
  its Testcase has FAILURE and carries the expected peer name.
\<close>

theorem failure_with_peer_name_counterexample:
  "(case produce sample_defaults ''rfc5280::ca-empty-subject'' [] ca_empty_subject ()
    of Inl e \<Rightarrow> False
     | Inr tc \<Rightarrow> tc_expected_result tc = FAILURE
               \<and> tc_expected_peer_name tc = Some \<lparr>kind = DNS, pn_value = ''example.com''\<rparr>)"
  by (simp add: produce_def ca_empty_subject_def builder_ops)

text \<open>
  C7, amended: on a fresh builder, a validation-kind selector, the configuration calls
  \<open>cs\<close> and \<^verbatim>\<open>fails()\<close> are legal exactly when \<open>cs\<close> has one call of \<^verbatim>\<open>peer_certificate\<close>, and
  then register one Testcase, whose expected result is FAILURE and whose expected peer name
  and names are those passed in \<open>cs\<close>: the argument of the last call of
  \<^verbatim>\<open>expected_peer_name\<close> (of \<^verbatim>\<open>expected_peer_names\<close>), and none when \<open>cs\<close> has no such call. So a
  Testcase finalized with \<^verbatim>\<open>fails()\<close> carries an expected peer name exactly when one was
  passed: the fields are optional whatever the expected result.
\<close>

theorem fails_keeps_called_peer_names:
  assumes "fresh b0"
  shows "(drive k cs fails b0 \<noteq> None \<longleftrightarrow> length (filter is_peer_certificate cs) = 1)
       \<and> (\<forall>b. drive k cs fails b0 = Some b \<longrightarrow>
            (\<exists>tc. b_registered b = [tc]
               \<and> tc_expected_result tc = FAILURE
               \<and> tc_expected_peer_name tc = peer_name_called cs None
               \<and> tc_expected_peer_names tc = peer_names_called cs None))
       \<and> (peer_name_called cs None \<noteq> None \<longleftrightarrow> list_ex is_expected_peer_name cs)
       \<and> (peer_names_called cs None \<noteq> None \<longleftrightarrow> list_ex is_expected_peer_names cs)"
proof -
  have defined: "drive k cs fails b0 \<noteq> None
                   \<longleftrightarrow> length (filter is_peer_certificate cs) = 1"
    using drive_finalize_defined [OF assms, of k cs FAILURE]
    by (simp add: drive_def fails_def)
  have registers: "\<exists>tc. b_registered b = [tc]
               \<and> tc_expected_result tc = FAILURE
               \<and> tc_expected_peer_name tc = peer_name_called cs None
               \<and> tc_expected_peer_names tc = peer_names_called cs None"
    if "drive k cs fails b0 = Some b" for b
  proof -
    from that have "drive k cs (finalize FAILURE) b0 = Some b"
      by (simp add: drive_def fails_def)
    from drive_finalize_registers [OF assms this] show ?thesis by blast
  qed
  show ?thesis
    apply (intro conjI impI allI)
    subgoal by (rule defined)
    subgoal by (rule registers)
    subgoal using peer_name_called_present [of cs None] by simp
    subgoal using peer_names_called_present [of cs None] by simp
    done
qed

theorem fails_keeps_called_peer_names_witness:
  "fresh (Builder sample_defaults ''sample'' [])
   \<and> map (\<lambda>tc. (tc_expected_result tc, tc_expected_peer_name tc, tc_expected_peer_names tc))
       (case drive SERVER
               [Trusted_certs [sample_certificate ''x509-limbo-root'' 0],
                Peer_certificate (sample_certificate ''example.com'' 1),
                Expected_peer_name \<lparr>kind = DNS, pn_value = ''example.com''\<rparr>]
               fails (Builder sample_defaults ''sample'' [])
        of None \<Rightarrow> [] | Some b \<Rightarrow> b_registered b)
     = [(FAILURE, Some \<lparr>kind = DNS, pn_value = ''example.com''\<rparr>, None)]
   \<and> map (\<lambda>tc. (tc_expected_result tc, tc_expected_peer_name tc, tc_expected_peer_names tc))
       (case drive CLIENT
               [Peer_certificate (sample_certificate ''example.com'' 1),
                Expected_peer_names [\<lparr>kind = RFC822, pn_value = ''a@example.com''\<rparr>]]
               fails (Builder sample_defaults ''sample'' [])
        of None \<Rightarrow> [] | Some b \<Rightarrow> b_registered b)
     = [(FAILURE, None, Some [\<lparr>kind = RFC822, pn_value = ''a@example.com''\<rparr>])]
   \<and> map (\<lambda>tc. (tc_expected_result tc, tc_expected_peer_name tc, tc_expected_peer_names tc))
       (case drive SERVER
               [Trusted_certs [sample_certificate ''x509-limbo-root'' 0],
                Peer_certificate (sample_certificate ''example.com'' 1)]
               fails (Builder sample_defaults ''sample'' [])
        of None \<Rightarrow> [] | Some b \<Rightarrow> b_registered b)
     = [(FAILURE, None, None)]"
proof -
  let ?b0 = "Builder sample_defaults ''sample'' []"
  let ?root = "sample_certificate ''x509-limbo-root'' 0"
  let ?leaf = "sample_certificate ''example.com'' 1"
  let ?pn = "\<lparr>kind = DNS, pn_value = ''example.com''\<rparr>"
  let ?pns = "[\<lparr>kind = RFC822, pn_value = ''a@example.com''\<rparr>]"
  have fr: "fresh ?b0" by (rule fresh_Builder)
  note named =
    fails_keeps_called_peer_names
      [OF fr, where k = SERVER
         and cs = "[Trusted_certs [?root], Peer_certificate ?leaf, Expected_peer_name ?pn]"]
  note names =
    fails_keeps_called_peer_names
      [OF fr, where k = CLIENT
         and cs = "[Peer_certificate ?leaf, Expected_peer_names ?pns]"]
  note unnamed =
    fails_keeps_called_peer_names
      [OF fr, where k = SERVER and cs = "[Trusted_certs [?root], Peer_certificate ?leaf]"]
  from named [THEN conjunct1] obtain b
    where b: "drive SERVER
                [Trusted_certs [?root], Peer_certificate ?leaf, Expected_peer_name ?pn]
                fails ?b0 = Some b"
    by auto
  from named [THEN conjunct2, THEN conjunct1, rule_format, OF b]
  have first:
    "map (\<lambda>tc. (tc_expected_result tc, tc_expected_peer_name tc, tc_expected_peer_names tc))
       (case drive SERVER
               [Trusted_certs [?root], Peer_certificate ?leaf, Expected_peer_name ?pn]
               fails ?b0
        of None \<Rightarrow> [] | Some b \<Rightarrow> b_registered b)
     = [(FAILURE, Some ?pn, None)]"
    using b by auto
  from names [THEN conjunct1] obtain b''
    where b'': "drive CLIENT [Peer_certificate ?leaf, Expected_peer_names ?pns] fails ?b0
                  = Some b''"
    by auto
  from names [THEN conjunct2, THEN conjunct1, rule_format, OF b'']
  have second:
    "map (\<lambda>tc. (tc_expected_result tc, tc_expected_peer_name tc, tc_expected_peer_names tc))
       (case drive CLIENT [Peer_certificate ?leaf, Expected_peer_names ?pns] fails ?b0
        of None \<Rightarrow> [] | Some b \<Rightarrow> b_registered b)
     = [(FAILURE, None, Some ?pns)]"
    using b'' by auto
  from unnamed [THEN conjunct1] obtain b'
    where b': "drive SERVER [Trusted_certs [?root], Peer_certificate ?leaf] fails ?b0
                 = Some b'"
    by auto
  from unnamed [THEN conjunct2, THEN conjunct1, rule_format, OF b']
  have third:
    "map (\<lambda>tc. (tc_expected_result tc, tc_expected_peer_name tc, tc_expected_peer_names tc))
       (case drive SERVER [Trusted_certs [?root], Peer_certificate ?leaf] fails ?b0
        of None \<Rightarrow> [] | Some b \<Rightarrow> b_registered b)
     = [(FAILURE, None, None)]"
    using b' by auto
  from fr first second third show ?thesis by simp
qed

section \<open>The self-issuance pair\<close>


lemma permitted_self_issued_leaf:
  "\<exists>b tc. permitted_self_issued (Builder d i description) = Some b
     \<and> b_registered b = [tc]
     \<and> (violates_permitted_dns (hd (tc_trusted_certs tc)) (tc_peer_certificate tc)
          \<longleftrightarrow> \<not> default_leaf_within d ''example.com'')"
  by (cases "d_leaf_san d")
     (auto simp: permitted_self_issued_def builder_ops san_dns_names_def
        permitted_dns_def violates_permitted_dns_def default_leaf_within_def
        list_ex_iff list_all_iff)

lemma excluded_self_issued_leaf_intermediate:
  "\<exists>b tc. excluded_self_issued_leaf (Builder d i description) = Some b
     \<and> b_registered b = [tc]
     \<and> (self_issued (hd (tc_untrusted_intermediates tc))
          \<longleftrightarrow> d_root_name d = CN ''not-example.com'')"
  by (simp add: excluded_self_issued_leaf_def builder_ops self_issued_def eq_commute)



section \<open>Unique ids\<close>







lemma produce_keyed:
  assumes "\<And>b b'. func b = Some b' \<Longrightarrow> b_registered b = []
             \<Longrightarrow> list_all (\<lambda>tc. tc_id tc = b_id b) (b_registered b')"
  shows "keyed [(i, produce d i description func)]"
proof -
  have "tc_id tc = i" if "produce d i description func () = Inr tc" for tc
  proof -
    from that obtain b where f: "func (Builder d i description) = Some b"
      and r: "b_registered b = [tc]"
      by (auto simp: produce_def split: option.splits list.splits)
    from assms [OF f] r show ?thesis by (simp add: Builder_def)
  qed
  then show ?thesis by (auto simp: keyed_def split: sum.splits)
qed







end
